theory Spec2Isabelle
  imports Main
begin

section \<open>Shared data model\<close>

text \<open>
  A JavaScript \<^verbatim>\<open>Date\<close> is its \<^verbatim>\<open>getTime()\<close> value: milliseconds since the epoch.
  A field that may be \<^verbatim>\<open>null\<close> or \<^verbatim>\<open>undefined\<close> is an \<open>option\<close>; \<open>None\<close> stands for both.
  The counters of \<^verbatim>\<open>usageStats\<close> are JavaScript numbers that only ever change by
  \<^verbatim>\<open>+= 1\<close> starting from the schema default 0; they are modelled as unbounded integers.
\<close>

type_synonym date = int

text \<open>JavaScript truthiness of a string-valued field: \<^verbatim>\<open>null\<close>, \<^verbatim>\<open>undefined\<close> and the
  empty string are falsy, every other string is truthy.\<close>

definition truthy :: "string option \<Rightarrow> bool" where
  "truthy v = (case v of None \<Rightarrow> False | Some s \<Rightarrow> s \<noteq> [])"

text \<open>A \<^verbatim>\<open>Date\<close> object is truthy whenever it is not \<^verbatim>\<open>null\<close>/\<^verbatim>\<open>undefined\<close>.\<close>

definition truthy_date :: "date option \<Rightarrow> bool" where
  "truthy_date d = (d \<noteq> None)"

text \<open>
  JSON values as JavaScript sees them after \<^verbatim>\<open>JSON.parse\<close>: request and response bodies
  and the fields of schema type \<^verbatim>\<open>Mixed\<close>. Numbers are integers. A missing property
  (\<^verbatim>\<open>undefined\<close>) is \<open>None\<close>.
\<close>

datatype json = JNull | JBool bool | JNum int | JStr string | JObj "(string \<times> json) list"

fun truthy_json :: "json option \<Rightarrow> bool" where
  "truthy_json None = False"
| "truthy_json (Some JNull) = False"
| "truthy_json (Some (JBool b)) = b"
| "truthy_json (Some (JNum n)) = (n \<noteq> 0)"
| "truthy_json (Some (JStr s)) = (s \<noteq> [])"
| "truthy_json (Some (JObj kvs)) = True"

text \<open>Property access \<^verbatim>\<open>v.k\<close> on a value already known to be truthy.\<close>

fun field :: "json option \<Rightarrow> string \<Rightarrow> json option" where
  "field (Some (JObj kvs)) k = map_of kvs k"
| "field v k = None"

text \<open>Assignment \<^verbatim>\<open>obj.k = v\<close> on an object given as its list of properties.\<close>

definition set_field :: "string \<Rightarrow> json \<Rightarrow> (string \<times> json) list \<Rightarrow> (string \<times> json) list" where
  "set_field k v kvs = (k, v) # filter (\<lambda>kv. fst kv \<noteq> k) kvs"

record usageStats =
  totalTransactions :: int
  successfulTransactions :: int
  failedTransactions :: int
  lastUsedAt :: "date option"

text \<open>The fields that \<^verbatim>\<open>models/MTNUser.js\<close> and \<^verbatim>\<open>models/AirtelUser.js\<close> share.\<close>

text \<open>Every schema is declared with \<^verbatim>\<open>timestamps: true\<close>; only \<^verbatim>\<open>createdAt\<close> is read.\<close>

record document =
  createdAt :: date

record apiUser = document +
  isActive :: bool
  usageStats :: usageStats
  retryAttempts :: int

record MTNUser = apiUser +
  xReferenceId :: string
  apiKey :: string
  collectionToken :: "string option"
  disbursementToken :: "string option"
  collectionTokenExpiresAt :: "date option"
  disbursementTokenExpiresAt :: "date option"

record AirtelUser = apiUser +
  clientId :: string
  accessToken :: "string option"
  tokenExpiresAt :: "date option"
  tokenType :: "string option"
  scope :: "string option"

section \<open>Token validity virtuals (models/MTNUser.js, models/AirtelUser.js)\<close>

text \<open>
  \<^verbatim>\<open>this.collectionToken && this.collectionTokenExpiresAt && this.collectionTokenExpiresAt > new Date()\<close>.
  The value of \<^verbatim>\<open>new Date()\<close> is the parameter \<open>now\<close>. The getter returns the last
  operand evaluated; only its truthiness is modelled.
\<close>

definition collectionTokenValid :: "MTNUser \<Rightarrow> date \<Rightarrow> bool" where
  "collectionTokenValid u now =
     (truthy (collectionToken u) \<and> truthy_date (collectionTokenExpiresAt u) \<and>
      (case collectionTokenExpiresAt u of None \<Rightarrow> False | Some e \<Rightarrow> e > now))"

definition disbursementTokenValid :: "MTNUser \<Rightarrow> date \<Rightarrow> bool" where
  "disbursementTokenValid u now =
     (truthy (disbursementToken u) \<and> truthy_date (disbursementTokenExpiresAt u) \<and>
      (case disbursementTokenExpiresAt u of None \<Rightarrow> False | Some e \<Rightarrow> e > now))"

definition tokenValid :: "AirtelUser \<Rightarrow> date \<Rightarrow> bool" where
  "tokenValid u now =
     (truthy (accessToken u) \<and> truthy_date (tokenExpiresAt u) \<and>
      (case tokenExpiresAt u of None \<Rightarrow> False | Some e \<Rightarrow> e > now))"

section \<open>Usage counters (incrementUsage)\<close>

text \<open>
  \<^verbatim>\<open>
  this.usageStats.totalTransactions += 1;
  if (success) { this.usageStats.successfulTransactions += 1; }
  else { this.usageStats.failedTransactions += 1; }
  this.usageStats.lastUsedAt = new Date();
  return this.save();
  \<close>
  The function returns the document as it is handed to \<^verbatim>\<open>save()\<close>.
\<close>

definition bump_usage :: "usageStats \<Rightarrow> bool \<Rightarrow> date \<Rightarrow> usageStats" where
  "bump_usage s success now =
     (let s1 = s\<lparr>totalTransactions := totalTransactions s + 1\<rparr>;
          s2 = (if success
                then s1\<lparr>successfulTransactions := successfulTransactions s1 + 1\<rparr>
                else s1\<lparr>failedTransactions := failedTransactions s1 + 1\<rparr>)
      in s2\<lparr>lastUsedAt := Some now\<rparr>)"

definition MTNUser_incrementUsage :: "MTNUser \<Rightarrow> bool \<Rightarrow> date \<Rightarrow> MTNUser" where
  "MTNUser_incrementUsage u success now = u\<lparr>usageStats := bump_usage (usageStats u) success now\<rparr>"

definition AirtelUser_incrementUsage :: "AirtelUser \<Rightarrow> bool \<Rightarrow> date \<Rightarrow> AirtelUser" where
  "AirtelUser_incrementUsage u success now = u\<lparr>usageStats := bump_usage (usageStats u) success now\<rparr>"

text \<open>The counter invariant of a credential record.\<close>

definition usage_consistent :: "usageStats \<Rightarrow> bool" where
  "usage_consistent s = (totalTransactions s = successfulTransactions s + failedTransactions s)"

section \<open>HTTP requests and the token endpoints\<close>

text \<open>Decimal rendering of a number inside an error message (template literals).\<close>

fun show_nat :: "nat \<Rightarrow> string" where
  "show_nat n = (if n < 10 then [char_of (48 + n)]
                 else show_nat (n div 10) @ [char_of (48 + n mod 10)])"

declare show_nat.simps [simp del]

text \<open>
  \<^verbatim>\<open>Buffer.from(s).toString('base64')\<close> is Node's standard base64 encoding (RFC 4648, with
  padding) of the bytes of \<open>s\<close>. An Isabelle string is a list of bytes and stands for the
  UTF-8 encoding that \<^verbatim>\<open>Buffer.from\<close> produces.
\<close>

definition b64_alphabet :: string where
  "b64_alphabet = ''ABCDEFGHIJKLMNOPQRSTUVWXYZabcdefghijklmnopqrstuvwxyz0123456789+/''"

definition b64_char :: "nat \<Rightarrow> char" where
  "b64_char n = b64_alphabet ! (n mod 64)"

fun b64_groups :: "nat list \<Rightarrow> string" where
  "b64_groups [] = []"
| "b64_groups [a] =
     [b64_char (a div 4), b64_char ((a mod 4) * 16), CHR ''='', CHR ''='']"
| "b64_groups [a, b] =
     [b64_char (a div 4), b64_char ((a mod 4) * 16 + b div 16),
      b64_char ((b mod 16) * 4), CHR ''='']"
| "b64_groups (a # b # c # rest) =
     [b64_char (a div 4), b64_char ((a mod 4) * 16 + b div 16),
      b64_char ((b mod 16) * 4 + c div 64), b64_char (c mod 64)] @ b64_groups rest"

definition base64 :: "string \<Rightarrow> string" where
  "base64 s = b64_groups (map of_char s)"

record http_request =
  req_method :: string
  req_url :: string
  req_headers :: "(string \<times> string) list"
  req_body :: "json option"

text \<open>The value of a request header, as the provider reads it.\<close>

definition header :: "http_request \<Rightarrow> string \<Rightarrow> string option" where
  "header r name = map_of (req_headers r) name"

text \<open>
  The JSON body of a token endpoint's answer. \<open>expires_in\<close> is the provider-declared
  lifetime in seconds, a JSON number; \<open>None\<close> is a missing field.
\<close>

record token_response =
  access_token :: "string option"
  expires_in :: "int option"
  token_type :: "string option"
  token_scope :: "string option"

text \<open>
  What an HTTP call hands back: \<open>Inl msg\<close> when the call rejects with an error whose
  message is \<open>msg\<close> (network failure, unparsable body; for \<^verbatim>\<open>axios\<close> also every
  status outside 2xx), \<open>Inr\<close> the response. \<open>body_text\<close> is \<^verbatim>\<open>JSON.stringify(body)\<close>
  and \<open>status_text\<close> is \<^verbatim>\<open>response.statusText\<close>.
\<close>

record token_http_response =
  http_status :: nat
  status_text :: string
  body_text :: string
  token_body :: token_response

type_synonym token_endpoint = "http_request \<Rightarrow> string + token_http_response"

definition response_ok :: "token_http_response \<Rightarrow> bool" where
  "response_ok r = (200 \<le> http_status r \<and> http_status r \<le> 299)"

text \<open>Configuration (config/paymentConfig.js and \<^verbatim>\<open>process.env\<close>), read when a service is built.\<close>

record config =
  mtn_baseURL :: string
  mtn_key_collectionWidget :: string
  mtn_key_collections :: string
  mtn_key_disbursements :: string
  mtn_key_remittances :: string
  env_MTN_COLLECTION_WIDGET_KEY :: "string option"
  env_MTN_API_USER :: "string option"
  env_MTN_API_KEY :: "string option"
  env_MTN_PROVIDER_CALLBACK_HOST :: "string option"
  env_MTN_CALLBACK_URL :: "string option"
  env_MTN_TARGET_ENVIRONMENT :: "string option"
  env_BASE_URL :: "string option"
  airtel_baseURL :: string
  airtel_clientId :: "string option"
  airtel_clientSecret :: "string option"

text \<open>\<^verbatim>\<open>a || b\<close> on an optional string and a string default.\<close>

definition or_else :: "string option \<Rightarrow> string \<Rightarrow> string" where
  "or_else v d = (case v of None \<Rightarrow> d | Some s \<Rightarrow> if s = [] then d else s)"

text \<open>MTNCollectionService: \<^verbatim>\<open>this.subscriptionKey =
  process.env.MTN_COLLECTION_WIDGET_KEY || this.mtnConfig.subscriptionKeys.collections\<close>.\<close>

definition collection_subscriptionKey :: "config \<Rightarrow> string" where
  "collection_subscriptionKey cfg = or_else (env_MTN_COLLECTION_WIDGET_KEY cfg) (mtn_key_collections cfg)"

subsection \<open>MTNCollectionService.getToken\<close>

definition getToken_request :: "config \<Rightarrow> string \<Rightarrow> string \<Rightarrow> http_request" where
  "getToken_request cfg xRef key =
     \<lparr>req_method = ''POST'',
      req_url = mtn_baseURL cfg @ ''/collection/token/'',
      req_headers = [(''Authorization'', ''Basic '' @ base64 (xRef @ '':'' @ key)),
                     (''Content-Type'', ''application/json''),
                     (''Ocp-Apim-Subscription-Key'', collection_subscriptionKey cfg)],
      req_body = None\<rparr>"

definition getToken :: "config \<Rightarrow> token_endpoint \<Rightarrow> string \<Rightarrow> string \<Rightarrow> string + token_response" where
  "getToken cfg fetch xRef key =
     (case fetch (getToken_request cfg xRef key) of
        Inl msg \<Rightarrow> Inl (''Failed to get collection token: '' @ msg)
      | Inr response \<Rightarrow>
          if \<not> response_ok response
          then Inl (''Failed to get collection token: '' @ ''Failed to get token: '' @
                    show_nat (http_status response) @ '' '' @ body_text response)
          else Inr (token_body response))"

subsection \<open>MTNAuthService.createCollectionToken / createDisbursementToken\<close>

definition createCollectionToken_request :: "config \<Rightarrow> string \<Rightarrow> string \<Rightarrow> http_request" where
  "createCollectionToken_request cfg xRef key =
     \<lparr>req_method = ''POST'',
      req_url = mtn_baseURL cfg @ ''/collection/token/'',
      req_headers = [(''Authorization'', ''Basic '' @ base64 (xRef @ '':'' @ key)),
                     (''Content-Type'', ''application/json''),
                     (''Ocp-Apim-Subscription-Key'', mtn_key_collections cfg)],
      req_body = Some (JObj [])\<rparr>"

definition createCollectionToken ::
  "config \<Rightarrow> token_endpoint \<Rightarrow> string \<Rightarrow> string \<Rightarrow> string + token_response" where
  "createCollectionToken cfg axios_post xRef key =
     (case axios_post (createCollectionToken_request cfg xRef key) of
        Inl msg \<Rightarrow> Inl (''Failed to create collection token: '' @ msg)
      | Inr response \<Rightarrow> Inr (token_body response))"

definition createDisbursementToken_request :: "config \<Rightarrow> string \<Rightarrow> string \<Rightarrow> http_request" where
  "createDisbursementToken_request cfg xRef key =
     \<lparr>req_method = ''POST'',
      req_url = mtn_baseURL cfg @ ''/disbursement/token/'',
      req_headers = [(''Authorization'', ''Basic '' @ base64 (xRef @ '':'' @ key)),
                     (''Content-Type'', ''application/json''),
                     (''Ocp-Apim-Subscription-Key'', mtn_key_disbursements cfg)],
      req_body = Some (JObj [])\<rparr>"

definition createDisbursementToken ::
  "config \<Rightarrow> token_endpoint \<Rightarrow> string \<Rightarrow> string \<Rightarrow> string + token_response" where
  "createDisbursementToken cfg axios_post xRef key =
     (case axios_post (createDisbursementToken_request cfg xRef key) of
        Inl msg \<Rightarrow> Inl (''Failed to create disbursement token: '' @ msg)
      | Inr response \<Rightarrow> Inr (token_body response))"

subsection \<open>AirtelAuthService.getAccessToken (services/AirtelAuthService.js)\<close>

text \<open>\<^verbatim>\<open>this.baseURL.replace(/\/$/, '')\<close>: one trailing slash is dropped.\<close>

definition strip_trailing_slash :: "string \<Rightarrow> string" where
  "strip_trailing_slash s = (if s \<noteq> [] \<and> last s = CHR ''/'' then butlast s else s)"

definition getAccessToken_request :: "config \<Rightarrow> string \<Rightarrow> string \<Rightarrow> http_request" where
  "getAccessToken_request cfg cid secret =
     \<lparr>req_method = ''POST'',
      req_url = strip_trailing_slash (airtel_baseURL cfg) @ ''/auth/oauth2/token'',
      req_headers = [(''Content-Type'', ''application/json''),
                     (''Accept'', ''*/*''),
                     (''Connection'', ''close''),
                     (''Cookie'', ''visid_incap_2967769=OuF6ejqtT/mBvA/Oxh+1LKzE52gAAAAAQUIPAAAAAAAm07DTETctcaDQz8F8Rq0B'')],
      req_body = Some (JObj [(''client_id'', JStr cid),
                             (''client_secret'', JStr secret),
                             (''grant_type'', JStr ''client_credentials'')])\<rparr>"

text \<open>
  The request that \<open>getAccessToken\<close> sends, if it sends one: none when a credential is
  missing (\<^verbatim>\<open>!this.clientId || !this.clientSecret\<close>).
\<close>

definition getAccessToken_sent :: "config \<Rightarrow> http_request option" where
  "getAccessToken_sent cfg =
     (if \<not> truthy (airtel_clientId cfg) \<or> \<not> truthy (airtel_clientSecret cfg) then None
      else Some (getAccessToken_request cfg (the (airtel_clientId cfg)) (the (airtel_clientSecret cfg))))"

definition getAccessToken :: "config \<Rightarrow> token_endpoint \<Rightarrow> string + token_response" where
  "getAccessToken cfg fetch =
     (case getAccessToken_sent cfg of
        None \<Rightarrow> Inl (''Failed to get Airtel access token: '' @
                    ''Airtel client credentials (AIRTEL_CLIENT_ID and AIRTEL_CLIENT_SECRET) are not configured'')
      | Some request \<Rightarrow>
          (case fetch request of
             Inl msg \<Rightarrow> Inl (''Failed to get Airtel access token: '' @ msg)
           | Inr response \<Rightarrow>
               if \<not> response_ok response
               then Inl (''Failed to get Airtel access token: '' @ ''Failed to get Airtel access token: '' @
                         show_nat (http_status response) @ '' '' @ status_text response @ ''. '' @
                         body_text response)
               else Inr (token_body response)))"

section \<open>Credential store and token refresh\<close>

text \<open>
  A Mongoose collection is the list of its documents in insertion order; a document's
  \<^verbatim>\<open>_id\<close> is its position. \<^verbatim>\<open>findOne({ isActive: true })\<close> yields the first active
  document. \<^verbatim>\<open>save()\<close> either rejects with a message (validation or database error,
  given by the environment) or writes the document back at its position.
  Fields of the credential schemas that no modelled operation reads
  (\<^verbatim>\<open>providerCallbackHost\<close>, \<^verbatim>\<open>subscriptionKeys\<close>, \<^verbatim>\<open>metadata\<close>) are left out.
\<close>

definition findOne_active :: "('a apiUser_scheme) list \<Rightarrow> (nat \<times> 'a apiUser_scheme) option" where
  "findOne_active docs = find (\<lambda>(i, d). isActive d) (enumerate 0 docs)"

definition save_doc :: "string option \<Rightarrow> nat \<Rightarrow> 'a \<Rightarrow> 'a list \<Rightarrow> string + 'a list" where
  "save_doc outcome i doc docs =
     (case outcome of
        Some msg \<Rightarrow> Inl msg
      | None \<Rightarrow> Inr (if i < length docs then docs[i := doc] else docs @ [doc]))"

text \<open>\<^verbatim>\<open>tokenResponse.expires_in || 180\<close>: a missing or zero lifetime becomes 180.\<close>

definition expires_in_or_180 :: "int option \<Rightarrow> int" where
  "expires_in_or_180 v = (case v of None \<Rightarrow> 180 | Some e \<Rightarrow> if e = 0 then 180 else e)"

text \<open>The default parameter \<^verbatim>\<open>expiresIn = 3600\<close> applies when the argument is \<^verbatim>\<open>undefined\<close>.\<close>

definition expiresIn_default :: "int option \<Rightarrow> int" where
  "expiresIn_default v = (case v of None \<Rightarrow> 3600 | Some e \<Rightarrow> e)"

definition updateCollectionToken :: "MTNUser \<Rightarrow> string option \<Rightarrow> int option \<Rightarrow> date \<Rightarrow> MTNUser" where
  "updateCollectionToken u token expiresIn tnow =
     u\<lparr>collectionToken := token,
       collectionTokenExpiresAt := Some (tnow + expiresIn_default expiresIn * 1000)\<rparr>"

definition updateDisbursementToken :: "MTNUser \<Rightarrow> string option \<Rightarrow> int option \<Rightarrow> date \<Rightarrow> MTNUser" where
  "updateDisbursementToken u token expiresIn tnow =
     u\<lparr>disbursementToken := token,
       disbursementTokenExpiresAt := Some (tnow + expiresIn_default expiresIn * 1000)\<rparr>"

definition updateToken ::
  "AirtelUser \<Rightarrow> string option \<Rightarrow> int option \<Rightarrow> string option \<Rightarrow> string option \<Rightarrow> date \<Rightarrow> AirtelUser" where
  "updateToken u token expiresIn ttype sc tnow =
     (let u1 = u\<lparr>accessToken := token,
                  tokenExpiresAt := Some (tnow + expiresIn_default expiresIn * 1000),
                  tokenType := (case ttype of None \<Rightarrow> Some ''Bearer'' | Some t \<Rightarrow> Some t)\<rparr>
      in if truthy sc then u1\<lparr>scope := sc\<rparr> else u1)"

subsection \<open>MTNCollectionService.getMTNUser and getValidToken (30 second buffer)\<close>

text \<open>
  The environment of one call: the token endpoint behind \<^verbatim>\<open>fetch\<close>, the outcome of
  \<^verbatim>\<open>save()\<close> (\<open>None\<close>: resolved), and the clock readings in the order the code takes
  them.
\<close>

record collection_env =
  ce_fetch :: token_endpoint
  ce_save :: "string option"
  ce_now_create :: date
  ce_now :: date
  ce_now_store :: date

definition new_MTNUser :: "string \<Rightarrow> string \<Rightarrow> string option \<Rightarrow> date option \<Rightarrow> date \<Rightarrow> MTNUser" where
  "new_MTNUser xRef key tok expiry tnow =
     \<lparr>createdAt = tnow,
      isActive = True,
      usageStats = \<lparr>totalTransactions = 0, successfulTransactions = 0,
                    failedTransactions = 0, lastUsedAt = None\<rparr>,
      retryAttempts = 3,
      xReferenceId = xRef,
      apiKey = key,
      collectionToken = tok,
      disbursementToken = None,
      collectionTokenExpiresAt = expiry,
      disbursementTokenExpiresAt = None\<rparr>"

definition getMTNUser ::
  "config \<Rightarrow> collection_env \<Rightarrow> MTNUser list \<Rightarrow> (string + nat \<times> MTNUser) \<times> MTNUser list" where
  "getMTNUser cfg env docs =
     (case findOne_active docs of
        Some found \<Rightarrow> (Inr found, docs)
      | None \<Rightarrow>
          if truthy (env_MTN_API_USER cfg) \<and> truthy (env_MTN_API_KEY cfg)
          then
            (let xRef = the (env_MTN_API_USER cfg);
                 key = the (env_MTN_API_KEY cfg);
                 (tok, expiry) =
                   (case getToken cfg (ce_fetch env) xRef key of
                      Inl msg \<Rightarrow> (None, None)
                    | Inr tokenResponse \<Rightarrow>
                        (access_token tokenResponse,
                         Some (ce_now_create env + expires_in_or_180 (expires_in tokenResponse) * 1000)));
                 mtnUser = new_MTNUser xRef key tok expiry (ce_now_create env)
             in case save_doc (ce_save env) (length docs) mtnUser docs of
                  Inl msg \<Rightarrow> (Inl msg, docs)
                | Inr docs' \<Rightarrow> (Inr (length docs, mtnUser), docs'))
          else (Inl ''MTN user not found. Please initialize MTN user first or set MTN_API_USER and MTN_API_KEY environment variables.'', docs))"

text \<open>
  The result is the thrown message (\<open>Inl\<close>) or the returned token; the second component
  is the MTNUser collection after the call.
\<close>

definition getValidToken ::
  "config \<Rightarrow> collection_env \<Rightarrow> MTNUser list \<Rightarrow> (string + string option) \<times> MTNUser list" where
  "getValidToken cfg env docs =
     (case getMTNUser cfg env docs of
        (Inl msg, docs1) \<Rightarrow> (Inl (''Failed to get valid token: '' @ msg), docs1)
      | (Inr (i, mtnUser), docs1) \<Rightarrow>
          if truthy (collectionToken mtnUser) \<and>
             truthy_date (collectionTokenExpiresAt mtnUser) \<and>
             the (collectionTokenExpiresAt mtnUser) - 30 * 1000 > ce_now env
          then (Inr (collectionToken mtnUser), docs1)
          else
            (case getToken cfg (ce_fetch env) (xReferenceId mtnUser) (apiKey mtnUser) of
               Inl msg \<Rightarrow> (Inl (''Failed to get valid token: '' @ msg), docs1)
             | Inr tokenResponse \<Rightarrow>
                 (let expiresIn = expires_in_or_180 (expires_in tokenResponse);
                      updated = updateCollectionToken mtnUser (access_token tokenResponse)
                                  (Some expiresIn) (ce_now_store env)
                  in case save_doc (ce_save env) i updated docs1 of
                       Inl msg \<Rightarrow> (Inl (''Failed to get valid token: '' @ msg), docs1)
                     | Inr docs2 \<Rightarrow> (Inr (access_token tokenResponse), docs2))))"

subsection \<open>MTNAuthService.refreshTokensIfNeeded (5 minute buffer)\<close>

record auth_env =
  ae_post :: token_endpoint
  ae_save :: "string option"
  ae_now :: date
  ae_now_valid :: date
  ae_now_store :: date

text \<open>
  \<open>ae_now\<close> is \<^verbatim>\<open>const now = new Date()\<close>, \<open>ae_now_valid\<close> the \<^verbatim>\<open>new Date()\<close> that the
  validity getters read, \<open>ae_now_store\<close> the \<^verbatim>\<open>Date.now()\<close> inside the update methods.
\<close>

definition collection_needs_refresh :: "auth_env \<Rightarrow> MTNUser \<Rightarrow> bool" where
  "collection_needs_refresh env u =
     (\<not> collectionTokenValid u (ae_now_valid env) \<or>
      (truthy_date (collectionTokenExpiresAt u) \<and>
       the (collectionTokenExpiresAt u) - 5 * 60 * 1000 \<le> ae_now env))"

definition disbursement_needs_refresh :: "auth_env \<Rightarrow> MTNUser \<Rightarrow> bool" where
  "disbursement_needs_refresh env u =
     (\<not> disbursementTokenValid u (ae_now_valid env) \<or>
      (truthy_date (disbursementTokenExpiresAt u) \<and>
       the (disbursementTokenExpiresAt u) - 5 * 60 * 1000 \<le> ae_now env))"

definition refresh_collection ::
  "config \<Rightarrow> auth_env \<Rightarrow> nat \<Rightarrow> MTNUser \<Rightarrow> MTNUser list \<Rightarrow> (string + MTNUser) \<times> MTNUser list" where
  "refresh_collection cfg env i u docs =
     (if collection_needs_refresh env u
      then (case createCollectionToken cfg (ae_post env) (xReferenceId u) (apiKey u) of
              Inl msg \<Rightarrow> (Inl msg, docs)
            | Inr tr \<Rightarrow>
                (let u1 = updateCollectionToken u (access_token tr) (expires_in tr) (ae_now_store env)
                 in case save_doc (ae_save env) i u1 docs of
                      Inl msg \<Rightarrow> (Inl msg, docs)
                    | Inr docs1 \<Rightarrow> (Inr u1, docs1)))
      else (Inr u, docs))"

definition refresh_disbursement ::
  "config \<Rightarrow> auth_env \<Rightarrow> nat \<Rightarrow> MTNUser \<Rightarrow> MTNUser list \<Rightarrow> (string + MTNUser) \<times> MTNUser list" where
  "refresh_disbursement cfg env i u docs =
     (if disbursement_needs_refresh env u
      then (case createDisbursementToken cfg (ae_post env) (xReferenceId u) (apiKey u) of
              Inl msg \<Rightarrow> (Inl msg, docs)
            | Inr tr \<Rightarrow>
                (let u1 = updateDisbursementToken u (access_token tr) (expires_in tr) (ae_now_store env)
                 in case save_doc (ae_save env) i u1 docs of
                      Inl msg \<Rightarrow> (Inl msg, docs)
                    | Inr docs1 \<Rightarrow> (Inr u1, docs1)))
      else (Inr u, docs))"

definition MTN_refreshTokensIfNeeded ::
  "config \<Rightarrow> auth_env \<Rightarrow> nat \<Rightarrow> MTNUser \<Rightarrow> MTNUser list \<Rightarrow> (string + MTNUser) \<times> MTNUser list" where
  "MTN_refreshTokensIfNeeded cfg env i mtnUser docs =
     (case refresh_collection cfg env i mtnUser docs of
        (Inl msg, docs1) \<Rightarrow> (Inl (''Failed to refresh tokens: '' @ msg), docs1)
      | (Inr u1, docs1) \<Rightarrow>
          (case refresh_disbursement cfg env i u1 docs1 of
             (Inl msg, docs2) \<Rightarrow> (Inl (''Failed to refresh tokens: '' @ msg), docs2)
           | (Inr u2, docs2) \<Rightarrow> (Inr u2, docs2)))"

text \<open>
  \<open>initializeMTNUser\<close>: with an active record, refresh it and read it back by its
  \<^verbatim>\<open>_id\<close>. Without one the code runs \<open>createNewMTNUser\<close> (API user and key provisioning);
  its outcome, the thrown message or the saved document, is the parameter \<open>createNew\<close>.
\<close>

definition initializeMTNUser ::
  "config \<Rightarrow> auth_env \<Rightarrow> (string + MTNUser) \<Rightarrow> MTNUser list \<Rightarrow> (string + MTNUser) \<times> MTNUser list" where
  "initializeMTNUser cfg env createNew docs =
     (case findOne_active docs of
        None \<Rightarrow>
          (case createNew of
             Inl msg \<Rightarrow> (Inl (''Failed to initialize MTN user: '' @ msg), docs)
           | Inr u \<Rightarrow> (Inr u, docs @ [u]))
      | Some (i, mtnUser) \<Rightarrow>
          (case MTN_refreshTokensIfNeeded cfg env i mtnUser docs of
             (Inl msg, docs1) \<Rightarrow> (Inl (''Failed to initialize MTN user: '' @ msg), docs1)
           | (Inr u, docs1) \<Rightarrow> (Inr (docs1 ! i), docs1)))"

definition getCollectionToken ::
  "config \<Rightarrow> auth_env \<Rightarrow> (string + MTNUser) \<Rightarrow> MTNUser list \<Rightarrow> (string + string option) \<times> MTNUser list" where
  "getCollectionToken cfg env createNew docs =
     (case initializeMTNUser cfg env createNew docs of
        (Inl msg, docs1) \<Rightarrow> (Inl msg, docs1)
      | (Inr u, docs1) \<Rightarrow> (Inr (collectionToken u), docs1))"


subsection \<open>AirtelAuthService.refreshTokensIfNeeded (5 minute buffer)\<close>

definition airtel_needs_refresh :: "auth_env \<Rightarrow> AirtelUser \<Rightarrow> bool" where
  "airtel_needs_refresh env u =
     (\<not> tokenValid u (ae_now_valid env) \<or>
      (truthy_date (tokenExpiresAt u) \<and>
       the (tokenExpiresAt u) - 5 * 60 * 1000 \<le> ae_now env))"

definition Airtel_refreshTokensIfNeeded ::
  "config \<Rightarrow> auth_env \<Rightarrow> nat \<Rightarrow> AirtelUser \<Rightarrow> AirtelUser list \<Rightarrow> (string + AirtelUser) \<times> AirtelUser list" where
  "Airtel_refreshTokensIfNeeded cfg env i airtelUser docs =
     (if airtel_needs_refresh env airtelUser
      then (case getAccessToken cfg (ae_post env) of
              Inl msg \<Rightarrow> (Inl (''Failed to refresh tokens: '' @ msg), docs)
            | Inr tr \<Rightarrow>
                (let u1 = updateToken airtelUser (access_token tr) (expires_in tr)
                            (token_type tr) (token_scope tr) (ae_now_store env)
                 in case save_doc (ae_save env) i u1 docs of
                      Inl msg \<Rightarrow> (Inl (''Failed to refresh tokens: '' @ msg), docs)
                    | Inr docs1 \<Rightarrow> (Inr u1, docs1)))
      else (Inr airtelUser, docs))"

text \<open>\<open>initializeAirtelUser\<close>; \<open>createNew\<close> is the outcome of \<open>createNewAirtelUser\<close>.\<close>

definition initializeAirtelUser ::
  "config \<Rightarrow> auth_env \<Rightarrow> (string + AirtelUser) \<Rightarrow> AirtelUser list \<Rightarrow> (string + AirtelUser) \<times> AirtelUser list" where
  "initializeAirtelUser cfg env createNew docs =
     (case findOne_active docs of
        None \<Rightarrow>
          (case createNew of
             Inl msg \<Rightarrow> (Inl (''Failed to initialize Airtel user: '' @ msg), docs)
           | Inr u \<Rightarrow> (Inr u, docs @ [u]))
      | Some (i, airtelUser) \<Rightarrow>
          (case Airtel_refreshTokensIfNeeded cfg env i airtelUser docs of
             (Inl msg, docs1) \<Rightarrow> (Inl (''Failed to initialize Airtel user: '' @ msg), docs1)
           | (Inr u, docs1) \<Rightarrow> (Inr (docs1 ! i), docs1)))"

definition getValidAccessToken ::
  "config \<Rightarrow> auth_env \<Rightarrow> (string + AirtelUser) \<Rightarrow> AirtelUser list \<Rightarrow> (string + string option) \<times> AirtelUser list" where
  "getValidAccessToken cfg env createNew docs =
     (case initializeAirtelUser cfg env createNew docs of
        (Inl msg, docs1) \<Rightarrow> (Inl msg, docs1)
      | (Inr u, docs1) \<Rightarrow> (Inr (accessToken u), docs1))"

subsection \<open>resetMTNUser and resetAirtelUser\<close>



section \<open>Retry of provider calls (MomoAPIFixedToken.retryAPICall, config retry blocks)\<close>

record retryConfig =
  maxRetries :: int
  retryDelay :: int
  timeout :: int

text \<open>The constructor's \<^verbatim>\<open>this.retryConfig = { maxRetries: 3, retryDelay: 1000, timeout: 10000 }\<close>.\<close>

definition momo_retryConfig :: retryConfig where
  "momo_retryConfig = \<lparr>maxRetries = 3, retryDelay = 1000, timeout = 10000\<rparr>"

text \<open>
  \<^verbatim>\<open>parseInt(process.env.X) || d\<close>: the argument is the parsed value, \<open>None\<close> when the
  variable is unset or does not parse (\<^verbatim>\<open>NaN\<close>); \<^verbatim>\<open>NaN\<close> and 0 are falsy.
\<close>

definition parseInt_or :: "int option \<Rightarrow> int \<Rightarrow> int" where
  "parseInt_or v d = (case v of None \<Rightarrow> d | Some n \<Rightarrow> if n = 0 then d else n)"

text \<open>The \<^verbatim>\<open>retry\<close> block of \<^verbatim>\<open>config.mtn\<close> and of \<^verbatim>\<open>config.airtel\<close>, from the parsed
  values of \<^verbatim>\<open>*_MAX_RETRIES\<close>, \<^verbatim>\<open>*_RETRY_DELAY\<close> and \<^verbatim>\<open>*_API_TIMEOUT\<close>.\<close>

definition config_retry :: "int option \<Rightarrow> int option \<Rightarrow> int option \<Rightarrow> retryConfig" where
  "config_retry env_max env_delay env_timeout =
     \<lparr>maxRetries = parseInt_or env_max 3,
      retryDelay = parseInt_or env_delay 1000,
      timeout = parseInt_or env_timeout 10000\<rparr>"

text \<open>
  \<^verbatim>\<open>
  let lastError;
  for (let attempt = 1; attempt <= maxRetries; attempt++) {
    try { const result = await apiCall(); return result; }
    catch (error) {
      lastError = error;
      if (attempt < maxRetries) { await this.delay(this.retryConfig.retryDelay); }
    }
  }
  throw lastError;
  \<close>
  \<open>apiCall k\<close> is the outcome of the \<open>k\<close>-th invocation of the call (\<open>Inl\<close>: it throws).
  The loop state carries the delays waited so far and \<open>lastError\<close> (\<open>None\<close>:
  \<^verbatim>\<open>undefined\<close>). The result is the value returned or the value thrown, the delays
  waited in order, and the number of invocations made.
\<close>

function retry_loop ::
  "(int \<Rightarrow> 'e + 'a) \<Rightarrow> int \<Rightarrow> int \<Rightarrow> int \<Rightarrow> 'e option \<Rightarrow> int list
     \<Rightarrow> ('e option + 'a) \<times> int list \<times> int" where
  "retry_loop apiCall maxR delay attempt lastError delays =
     (if attempt \<le> maxR
      then (case apiCall attempt of
              Inr result \<Rightarrow> (Inr result, delays, attempt)
            | Inl error \<Rightarrow>
                retry_loop apiCall maxR delay (attempt + 1) (Some error)
                  (if attempt < maxR then delays @ [delay] else delays))
      else (Inl lastError, delays, attempt - 1))"
  by pat_completeness auto
termination
  by (relation "measure (\<lambda>(apiCall, maxR, delay, attempt, lastError, delays). nat (maxR + 1 - attempt))") auto

declare retry_loop.simps [simp del]

text \<open>The default parameter \<^verbatim>\<open>maxRetries = this.retryConfig.maxRetries\<close>.\<close>

definition retryAPICall ::
  "retryConfig \<Rightarrow> (int \<Rightarrow> 'e + 'a) \<Rightarrow> int option \<Rightarrow> ('e option + 'a) \<times> int list \<times> int" where
  "retryAPICall cfg apiCall maxRetriesArg =
     retry_loop apiCall (case maxRetriesArg of None \<Rightarrow> maxRetries cfg | Some n \<Rightarrow> n)
       (retryDelay cfg) 1 None []"

section \<open>Transaction records (models/Payment.js, models/Subscription.js)\<close>

text \<open>
  The fields that the Payment and the Subscription schema share. \<open>status\<close> is the main
  status; the schemas declare it with
  \<^verbatim>\<open>enum: ['PENDING', 'SUCCESSFUL', 'FAILED', 'CANCELLED'], default: 'PENDING'\<close>.
  Fields assigned from provider data are kept as the JSON value assigned. The Payment
  schema declares no \<^verbatim>\<open>failedAt\<close> path: Mongoose keeps an assignment to it on the object
  in memory and \<^verbatim>\<open>save()\<close> does not write it, so the stored document has no such field.
\<close>

record txn = document +
  status :: string
  mtnResponse :: "json option"
  mtnError :: "json option"
  amount :: int
  currency :: string
  processedAt :: "date option"
  completedAt :: "date option"

definition status_enum :: "string list" where
  "status_enum = [''PENDING'', ''SUCCESSFUL'', ''FAILED'', ''CANCELLED'']"

record Payment = txn +
  payment_xReferenceId :: string
  apiUserId :: "string option"
  payment_apiKey :: "string option"
  transactionType :: string
  transactionSubType :: string
  externalId :: string
  payer_partyIdType :: "string option"
  payer_partyId :: "string option"
  payee_partyIdType :: "string option"
  payee_partyId :: "string option"
  payerMessage :: "string option"
  payeeNote :: "string option"
  referenceIdToRefund :: "string option"
  payment_mtnStatus :: "string option"
  metadata :: "(string \<times> json) list"
  serviceType :: string
  payment_subscriptionKey :: "string option"

record Subscription = txn +
  userId :: string
  numberOfMonths :: int
  paymentChannel :: string
  msisdn :: string
  transactionId :: string
  airtelMoneyId :: "json option"
  mtnReferenceId :: "json option"
  airtelStatus :: "json option"
  mtnStatus :: "json option"
  startDate :: "date option"
  endDate :: "date option"
  airtelResponse :: "json option"
  airtelError :: "json option"

section \<open>Schema validation of payments (models/Payment.js)\<close>

text \<open>\<^verbatim>\<open>String(n)\<close> for an integer, and \<^verbatim>\<open>errors.join(', ')\<close>.\<close>

definition show_int :: "int \<Rightarrow> string" where
  "show_int n = (if n < 0 then ''-'' @ show_nat (nat (- n)) else show_nat (nat n))"

fun join_comma :: "string list \<Rightarrow> string" where
  "join_comma [] = []"
| "join_comma [x] = x"
| "join_comma (x # y # ys) = x @ '', '' @ join_comma (y # ys)"

text \<open>
  \<^verbatim>\<open>payment.save()\<close> first runs the validators that the Payment schema declares and
  rejects with a \<^verbatim>\<open>ValidationError\<close> when one fails; only a valid document reaches the
  database. One entry per failing path, with the default messages of Mongoose
  (\<open>tick\<close> puts a value between backquotes); of the validators of a path the first one
  that fails reports, \<^verbatim>\<open>required\<close> before \<^verbatim>\<open>enum\<close>.
\<close>

definition tick :: "string \<Rightarrow> string" where
  "tick s = [CHR 0x60] @ s @ [CHR 0x60]"

definition required_error :: "string \<Rightarrow> string" where
  "required_error path = path @ '': Path '' @ tick path @ '' is required.''"

definition enum_error :: "string \<Rightarrow> string \<Rightarrow> string" where
  "enum_error path v = path @ '': '' @ tick v @ '' is not a valid enum value for path '' @ tick path @ ''.''"

definition min_error :: "string \<Rightarrow> int \<Rightarrow> int \<Rightarrow> string" where
  "min_error path v m =
     path @ '': Path '' @ tick path @ '' ('' @ show_int v @ '') is less than minimum allowed value ('' @
     show_int m @ '').''"

definition maxlength_error :: "string \<Rightarrow> string \<Rightarrow> nat \<Rightarrow> string" where
  "maxlength_error path v n =
     path @ '': Path '' @ tick path @ '' ('' @ tick v @ '') is longer than the maximum allowed length ('' @
     show_nat n @ '').''"

text \<open>
  A string path: \<open>req\<close> is \<^verbatim>\<open>required: true\<close> (a missing or empty string fails),
  \<open>allowed\<close> the \<^verbatim>\<open>enum\<close> of the path if it has one (a missing value passes it).
\<close>

definition check_path :: "string \<Rightarrow> bool \<Rightarrow> string list option \<Rightarrow> string option \<Rightarrow> string list" where
  "check_path path req allowed v =
     (case v of
        None \<Rightarrow> if req then [required_error path] else []
      | Some s \<Rightarrow>
          if req \<and> s = [] then [required_error path]
          else (case allowed of
                  None \<Rightarrow> []
                | Some vals \<Rightarrow> if s \<in> set vals then [] else [enum_error path s]))"

definition check_maxlength :: "string \<Rightarrow> nat \<Rightarrow> string option \<Rightarrow> string list" where
  "check_maxlength path n v =
     (case v of
        None \<Rightarrow> []
      | Some s \<Rightarrow> if length s > n then [maxlength_error path s n] else [])"

text \<open>The paths of the Payment schema in the order of their declaration.\<close>

definition Payment_errors :: "Payment \<Rightarrow> string list" where
  "Payment_errors p =
     check_path ''xReferenceId'' True None (Some (payment_xReferenceId p)) @
     check_path ''apiUserId'' True None (apiUserId p) @
     check_path ''apiKey'' True None (payment_apiKey p) @
     check_path ''transactionType'' True (Some [''collection'', ''disbursement'', ''refund''])
       (Some (transactionType p)) @
     check_path ''transactionSubType'' True
       (Some [''request_to_pay'', ''transfer'', ''refund'', ''status_check'', ''balance_check'',
              ''account_status'', ''basic_user_info''])
       (Some (transactionSubType p)) @
     (if amount p < 0 then [min_error ''amount'' (amount p) 0] else []) @
     check_path ''currency'' True (Some [''EUR'', ''USD'', ''XAF'', ''XOF'']) (Some (currency p)) @
     check_path ''externalId'' True None (Some (externalId p)) @
     check_path ''payer.partyIdType'' True (Some [''MSISDN'', ''EMAIL'', ''PARTY_CODE''])
       (payer_partyIdType p) @
     check_path ''payer.partyId'' True None (payer_partyId p) @
     check_path ''payee.partyIdType'' False (Some [''MSISDN'', ''EMAIL'', ''PARTY_CODE''])
       (payee_partyIdType p) @
     check_maxlength ''payerMessage'' 160 (payerMessage p) @
     check_maxlength ''payeeNote'' 160 (payeeNote p) @
     check_path ''status'' False (Some status_enum) (Some (status p)) @
     check_path ''mtnStatus'' False (Some status_enum) (payment_mtnStatus p) @
     check_path ''serviceType'' True
       (Some [''collection_widget'', ''collections'', ''disbursements'', ''remittances''])
       (Some (serviceType p)) @
     check_path ''subscriptionKey'' True None (payment_subscriptionKey p)"

definition Payment_validate :: "Payment \<Rightarrow> string option" where
  "Payment_validate p =
     (if Payment_errors p = [] then None
      else Some (''Payment validation failed: '' @ join_comma (Payment_errors p)))"

text \<open>
  \<^verbatim>\<open>payment.save()\<close>: the validation error if there is one, else the outcome that the
  environment gives for the database write.
\<close>

definition save_Payment :: "string option \<Rightarrow> nat \<Rightarrow> Payment \<Rightarrow> Payment list \<Rightarrow> string + Payment list" where
  "save_Payment outcome i doc docs =
     (case Payment_validate doc of
        Some msg \<Rightarrow> Inl msg
      | None \<Rightarrow> save_doc outcome i doc docs)"

section \<open>Webhook callbacks (MTNPaymentController.callback, AirtelPaymentController.callback)\<close>

record MTNCallback = document +
  cb_financialTransactionId :: "json option"
  cb_externalId :: "json option"
  cb_amount :: "json option"
  cb_currency :: "json option"
  cb_status :: "json option"
  cb_payee :: "json option"
  cb_payeeNote :: "json option"
  cb_payerMessage :: "json option"
  cb_callbackData :: "json option"
  cb_processed :: bool
  cb_processedAt :: "date option"
  cb_processingError :: "string option"
  cb_ipAddress :: "string option"
  cb_userAgent :: string

record AirtelCallback = document +
  ac_transactionId :: "json option"
  ac_airtelMoneyId :: "json option"
  ac_statusCode :: "json option"
  ac_message :: "json option"
  ac_callbackData :: "json option"
  ac_processed :: bool
  ac_processedAt :: "date option"
  ac_processingError :: "string option"
  ac_ipAddress :: "string option"
  ac_userAgent :: string

text \<open>The parts of the Express request that the handlers read.\<close>

record request =
  body :: "json option"
  ip :: "string option"
  remoteAddress :: "string option"
  forwardedFor :: "string option"
  userAgent :: "string option"

text \<open>\<^verbatim>\<open>res.status(code).json(payload)\<close>.\<close>

record reply =
  code :: nat
  payload :: json

text \<open>\<^verbatim>\<open>a || b\<close> on optional strings, and \<^verbatim>\<open>v || null\<close> on a JSON value.\<close>

definition or_opt :: "string option \<Rightarrow> string option \<Rightarrow> string option" where
  "or_opt a b = (if truthy a then a else b)"

definition or_null :: "json option \<Rightarrow> json option" where
  "or_null v = (if truthy_json v then v else None)"

text \<open>
  The environment of one callback: the outcome of each database operation in the order
  the handler issues them (\<open>None\<close>: it resolves; \<open>Some msg\<close>: it rejects with the message)
  and the clock readings.
\<close>

record callback_env =
  save_callback :: "string option"
  find_payment :: "string option"
  save_payment :: "string option"
  mark_processed :: "string option"
  save_failed_callback :: "string option"
  now_callback :: date
  now_payment :: date
  now_processed :: date

text \<open>
  \<^verbatim>\<open>Payment.findOne({ externalId: callbackData.externalId }).sort({ createdAt: -1 })\<close>:
  among the payments whose \<open>externalId\<close> is the callback's, one with the greatest
  \<open>createdAt\<close> (the earliest stored of them when several share it). A callback
  identifier that is not a string matches no payment.
\<close>

fun most_recent :: "(nat \<times> 'a document_scheme) list \<Rightarrow> (nat \<times> 'a document_scheme) option" where
  "most_recent [] = None"
| "most_recent (x # xs) =
     (case most_recent xs of
        None \<Rightarrow> Some x
      | Some y \<Rightarrow> if createdAt (snd y) > createdAt (snd x) then Some y else Some x)"

definition matching_payments :: "json option \<Rightarrow> Payment list \<Rightarrow> (nat \<times> Payment) list" where
  "matching_payments ext docs =
     filter (\<lambda>(i, p). ext = Some (JStr (externalId p))) (enumerate 0 docs)"

definition findOne_payment :: "json option \<Rightarrow> Payment list \<Rightarrow> (nat \<times> Payment) option" where
  "findOne_payment ext docs = most_recent (matching_payments ext docs)"

text \<open>
  \<^verbatim>\<open>
  if (callbackData.financialTransactionId) {
    payment.metadata = payment.metadata || {};
    payment.metadata.financialTransactionId = callbackData.financialTransactionId;
  }
  \<close>
\<close>

definition note_financialTransactionId :: "json option \<Rightarrow> Payment \<Rightarrow> Payment" where
  "note_financialTransactionId callbackData p =
     (if truthy_json (field callbackData ''financialTransactionId'')
      then p\<lparr>metadata := set_field ''financialTransactionId''
                            (the (field callbackData ''financialTransactionId'')) (metadata p)\<rparr>
      else p)"

text \<open>
  The body of \<^verbatim>\<open>if (payment) { ... }\<close>: the document after the branch taken, as
  \<^verbatim>\<open>save()\<close> would write it, and whether that branch calls \<^verbatim>\<open>payment.save()\<close>. The
  assignments \<^verbatim>\<open>payment.failedAt = null\<close> and \<^verbatim>\<open>payment.failedAt = new Date()\<close> have no
  part in it: \<^verbatim>\<open>failedAt\<close> is not a path of the schema.
\<close>

definition apply_mtn_callback :: "callback_env \<Rightarrow> json option \<Rightarrow> Payment \<Rightarrow> Payment \<times> bool" where
  "apply_mtn_callback env callbackData payment =
     (let p = payment\<lparr>mtnResponse := callbackData\<rparr>
      in if field callbackData ''status'' = Some (JStr ''PENDING'')
         then (note_financialTransactionId callbackData
                 (p\<lparr>status := ''PENDING'', payment_mtnStatus := Some ''PENDING''\<rparr>), True)
         else if field callbackData ''status'' = Some (JStr ''SUCCESSFUL'')
         then (note_financialTransactionId callbackData
                 (p\<lparr>status := ''SUCCESSFUL'', payment_mtnStatus := Some ''SUCCESSFUL'',
                    completedAt := Some (now_payment env)\<rparr>), True)
         else if field callbackData ''status'' = Some (JStr ''FAILED'')
         then (note_financialTransactionId callbackData
                 (p\<lparr>status := ''FAILED'', payment_mtnStatus := Some ''FAILED'',
                    completedAt := None\<rparr>), True)
         else (p, False))"

definition mtn_required_fields :: "json option \<Rightarrow> bool" where
  "mtn_required_fields callbackData =
     (truthy_json (field callbackData ''externalId'') \<and> truthy_json (field callbackData ''status'') \<and>
      truthy_json (field callbackData ''amount'') \<and> truthy_json (field callbackData ''currency''))"

definition new_MTNCallback :: "callback_env \<Rightarrow> request \<Rightarrow> json option \<Rightarrow> MTNCallback" where
  "new_MTNCallback env req callbackData =
     \<lparr>createdAt = now_callback env,
      cb_financialTransactionId = or_null (field callbackData ''financialTransactionId''),
      cb_externalId = field callbackData ''externalId'',
      cb_amount = field callbackData ''amount'',
      cb_currency = field callbackData ''currency'',
      cb_status = field callbackData ''status'',
      cb_payee = or_null (field callbackData ''payee''),
      cb_payeeNote = or_null (field callbackData ''payeeNote''),
      cb_payerMessage = or_null (field callbackData ''payerMessage''),
      cb_callbackData = callbackData,
      cb_processed = False,
      cb_processedAt = None,
      cb_processingError = None,
      cb_ipAddress = or_opt (or_opt (ip req) (remoteAddress req)) (forwardedFor req),
      cb_userAgent = or_else (userAgent req) ''Unknown''\<rparr>"

text \<open>
  \<^verbatim>\<open>if (payment) { ... }\<close> as a step on the Payment collection: \<open>Inl msg\<close> when
  \<^verbatim>\<open>payment.save()\<close> rejects, be it by a validator of the schema or by the database.
\<close>

definition update_payment ::
  "callback_env \<Rightarrow> json option \<Rightarrow> Payment list \<Rightarrow> string + Payment list" where
  "update_payment env callbackData payments =
     (case findOne_payment (field callbackData ''externalId'') payments of
        None \<Rightarrow> Inr payments
      | Some (i, payment) \<Rightarrow>
          (case apply_mtn_callback env callbackData payment of
             (p, True) \<Rightarrow> save_Payment (save_payment env) i p payments
           | (p, False) \<Rightarrow> Inr payments))"

text \<open>
  The \<^verbatim>\<open>try\<close> block. \<open>Inl msg\<close>: an operation rejected with \<open>msg\<close> and control passes to
  the \<^verbatim>\<open>catch\<close> block; \<open>Inr\<close>: the reply sent. The state is the Payment and the
  MTNCallback collection.
\<close>

definition mtn_callback_try ::
  "callback_env \<Rightarrow> request \<Rightarrow> Payment list \<times> MTNCallback list
     \<Rightarrow> (string + reply) \<times> Payment list \<times> MTNCallback list" where
  "mtn_callback_try env req db =
     (let callbackData = body req; payments = fst db; callbacks = snd db
      in if \<not> truthy_json callbackData
         then (Inr \<lparr>code = 400,
                     payload = JObj [(''success'', JBool False),
                                     (''message'', JStr ''Invalid callback data'')]\<rparr>, db)
         else if \<not> mtn_required_fields callbackData
         then (Inr \<lparr>code = 400,
                     payload = JObj [(''success'', JBool False),
                                     (''message'', JStr ''Missing required fields: externalId, status, amount, currency'')]\<rparr>, db)
         else
           (let callback = new_MTNCallback env req callbackData; cid = length callbacks
            in case save_doc (save_callback env) cid callback callbacks of
                 Inl msg \<Rightarrow> (Inl msg, db)
               | Inr callbacks1 \<Rightarrow>
                   (case find_payment env of
                      Some msg \<Rightarrow> (Inl msg, payments, callbacks1)
                    | None \<Rightarrow>
                        (case update_payment env callbackData payments of
                           Inl msg \<Rightarrow> (Inl msg, payments, callbacks1)
                         | Inr payments1 \<Rightarrow>
                             (case save_doc (mark_processed env) cid
                                     (callback\<lparr>cb_processed := True,
                                                cb_processedAt := Some (now_processed env)\<rparr>)
                                     callbacks1 of
                                Inl msg \<Rightarrow> (Inl msg, payments1, callbacks1)
                              | Inr callbacks2 \<Rightarrow>
                                  (Inr \<lparr>code = 200,
                                        payload = JObj [(''success'', JBool True),
                                                        (''message'', JStr ''Callback received and processed''),
                                                        (''callbackId'', JNum (int cid))]\<rparr>,
                                   payments1, callbacks2))))))"

text \<open>The \<^verbatim>\<open>catch\<close> block: try to store a record of the failed callback, then answer 200.\<close>

definition mtn_callback_catch ::
  "callback_env \<Rightarrow> request \<Rightarrow> string \<Rightarrow> Payment list \<times> MTNCallback list
     \<Rightarrow> reply \<times> Payment list \<times> MTNCallback list" where
  "mtn_callback_catch env req msg db =
     (let callbacks = snd db;
          callbacks1 =
            (if truthy_json (body req) \<and> truthy_json (field (body req) ''externalId'')
             then (case save_doc (save_failed_callback env) (length callbacks)
                          \<lparr>createdAt = now_callback env,
                           cb_financialTransactionId = None,
                           cb_externalId = field (body req) ''externalId'',
                           cb_amount = None, cb_currency = None, cb_status = None,
                           cb_payee = None, cb_payeeNote = None, cb_payerMessage = None,
                           cb_callbackData = body req,
                           cb_processed = False, cb_processedAt = None,
                           cb_processingError = Some msg,
                           cb_ipAddress = or_opt (ip req) (remoteAddress req),
                           cb_userAgent = or_else (userAgent req) ''Unknown''\<rparr> callbacks of
                     Inl saveError \<Rightarrow> callbacks
                   | Inr saved \<Rightarrow> saved)
             else callbacks)
      in (\<lparr>code = 200,
           payload = JObj [(''success'', JBool False),
                           (''message'', JStr ''Callback received but processing failed''),
                           (''error'', JStr msg)]\<rparr>,
          fst db, callbacks1))"

definition MTN_callback ::
  "callback_env \<Rightarrow> request \<Rightarrow> Payment list \<times> MTNCallback list
     \<Rightarrow> reply \<times> Payment list \<times> MTNCallback list" where
  "MTN_callback env req db =
     (case mtn_callback_try env req db of
        (Inr r, db1) \<Rightarrow> (r, db1)
      | (Inl msg, db1) \<Rightarrow> mtn_callback_catch env req msg db1)"

subsection \<open>AirtelPaymentController.callback\<close>

definition airtel_required_fields :: "json option \<Rightarrow> bool" where
  "airtel_required_fields transaction =
     (truthy_json (field transaction ''id'') \<and> truthy_json (field transaction ''status_code'') \<and>
      truthy_json (field transaction ''airtel_money_id''))"

text \<open>\<^verbatim>\<open>v || 'text'\<close> on a JSON value.\<close>

definition or_text :: "json option \<Rightarrow> string \<Rightarrow> json option" where
  "or_text v d = (if truthy_json v then v else Some (JStr d))"

text \<open>
  The handler stores the callback and marks it processed. Its state is the AirtelCallback
  collection; the Subscription collection is carried along to show that the handler
  (whose update of a transaction record is a \<^verbatim>\<open>TODO\<close> comment) leaves it as it is.
\<close>

definition new_AirtelCallback :: "callback_env \<Rightarrow> request \<Rightarrow> json option \<Rightarrow> AirtelCallback" where
  "new_AirtelCallback env req callbackData =
     (let transaction = field callbackData ''transaction''
      in \<lparr>createdAt = now_callback env,
          ac_transactionId = field transaction ''id'',
          ac_airtelMoneyId = field transaction ''airtel_money_id'',
          ac_statusCode = field transaction ''status_code'',
          ac_message = or_text (field transaction ''message'') [],
          ac_callbackData = callbackData,
          ac_processed = False,
          ac_processedAt = None,
          ac_processingError = None,
          ac_ipAddress = or_opt (ip req) (remoteAddress req),
          ac_userAgent = or_else (userAgent req) ''Unknown''\<rparr>)"

definition airtel_callback_try ::
  "callback_env \<Rightarrow> request \<Rightarrow> Subscription list \<times> AirtelCallback list
     \<Rightarrow> (string + reply) \<times> Subscription list \<times> AirtelCallback list" where
  "airtel_callback_try env req db =
     (let callbackData = body req; callbacks = snd db
      in if \<not> truthy_json callbackData \<or> \<not> truthy_json (field callbackData ''transaction'')
         then (Inr \<lparr>code = 400,
                     payload = JObj [(''success'', JBool False),
                                     (''message'', JStr ''Invalid callback data'')]\<rparr>, db)
         else
           (let transaction = field callbackData ''transaction''
            in if \<not> airtel_required_fields transaction
               then (Inr \<lparr>code = 400,
                           payload = JObj [(''success'', JBool False),
                                           (''message'', JStr ''Missing required transaction fields'')]\<rparr>, db)
               else
                 (let callback = new_AirtelCallback env req callbackData; cid = length callbacks
                  in case save_doc (save_callback env) cid callback callbacks of
                       Inl msg \<Rightarrow> (Inl msg, db)
                     | Inr callbacks1 \<Rightarrow>
                         (case save_doc (mark_processed env) cid
                                 (callback\<lparr>ac_processed := True,
                                            ac_processedAt := Some (now_processed env)\<rparr>)
                                 callbacks1 of
                            Inl msg \<Rightarrow> (Inl msg, fst db, callbacks1)
                          | Inr callbacks2 \<Rightarrow>
                              (Inr \<lparr>code = 200,
                                    payload = JObj [(''success'', JBool True),
                                                    (''message'', JStr ''Callback received and processed''),
                                                    (''transactionId'', the (field transaction ''id'')),
                                                    (''callbackId'', JNum (int cid))]\<rparr>,
                               fst db, callbacks2)))))"

definition airtel_callback_catch ::
  "callback_env \<Rightarrow> request \<Rightarrow> string \<Rightarrow> Subscription list \<times> AirtelCallback list
     \<Rightarrow> reply \<times> Subscription list \<times> AirtelCallback list" where
  "airtel_callback_catch env req msg db =
     (let callbacks = snd db;
          callbacks1 =
            (if truthy_json (body req) \<and> truthy_json (field (body req) ''transaction'')
             then (let transaction = field (body req) ''transaction''
                   in case save_doc (save_failed_callback env) (length callbacks)
                          \<lparr>createdAt = now_callback env,
                           ac_transactionId = or_text (field transaction ''id'') ''unknown'',
                           ac_airtelMoneyId = or_text (field transaction ''airtel_money_id'') ''unknown'',
                           ac_statusCode = or_text (field transaction ''status_code'') ''TF'',
                           ac_message = or_text (field transaction ''message'') ''Processing failed'',
                           ac_callbackData = body req,
                           ac_processed = False, ac_processedAt = None,
                           ac_processingError = Some msg,
                           ac_ipAddress = or_opt (ip req) (remoteAddress req),
                           ac_userAgent = or_else (userAgent req) ''Unknown''\<rparr> callbacks of
                     Inl saveError \<Rightarrow> callbacks
                   | Inr saved \<Rightarrow> saved)
             else callbacks)
      in (\<lparr>code = 200,
           payload = JObj [(''success'', JBool False),
                           (''message'', JStr ''Callback received but processing failed''),
                           (''error'', JStr msg)]\<rparr>,
          fst db, callbacks1))"

definition Airtel_callback ::
  "callback_env \<Rightarrow> request \<Rightarrow> Subscription list \<times> AirtelCallback list
     \<Rightarrow> reply \<times> Subscription list \<times> AirtelCallback list" where
  "Airtel_callback env req db =
     (case airtel_callback_try env req db of
        (Inr r, db1) \<Rightarrow> (r, db1)
      | (Inl msg, db1) \<Rightarrow> airtel_callback_catch env req msg db1)"

section \<open>SubscriptionService.createSubscriptionPayment\<close>

text \<open>\<^verbatim>\<open>String.prototype.toUpperCase\<close> on ASCII letters.\<close>

definition toUpperCase :: "string \<Rightarrow> string" where
  "toUpperCase s =
     map (\<lambda>c. if 97 \<le> (of_char c :: nat) \<and> (of_char c :: nat) \<le> 122
              then char_of ((of_char c :: nat) - 32) else c) s"

text \<open>
  \<^verbatim>\<open>/^[0-9a-f]{8}-[0-9a-f]{4}-[0-9a-f]{4}-[0-9a-f]{4}-[0-9a-f]{12}$/i.test(s)\<close>
\<close>

definition is_hex :: "char \<Rightarrow> bool" where
  "is_hex c = ((48 \<le> (of_char c :: nat) \<and> (of_char c :: nat) \<le> 57) \<or>
               (97 \<le> (of_char c :: nat) \<and> (of_char c :: nat) \<le> 102) \<or>
               (65 \<le> (of_char c :: nat) \<and> (of_char c :: nat) \<le> 70))"

definition uuidRegex_test :: "string \<Rightarrow> bool" where
  "uuidRegex_test s =
     (length s = 36 \<and>
      list_all is_hex (take 8 s) \<and> s ! 8 = CHR ''-'' \<and>
      list_all is_hex (take 4 (drop 9 s)) \<and> s ! 13 = CHR ''-'' \<and>
      list_all is_hex (take 4 (drop 14 s)) \<and> s ! 18 = CHR ''-'' \<and>
      list_all is_hex (take 4 (drop 19 s)) \<and> s ! 23 = CHR ''-'' \<and>
      list_all is_hex (take 12 (drop 24 s)))"

text \<open>
  The argument \<open>subscriptionData\<close>. The controller hands over \<^verbatim>\<open>parseFloat(amount)\<close>
  and \<^verbatim>\<open>parseInt(numberOfMonths)\<close>, so both are numbers when present (\<open>None\<close>:
  \<^verbatim>\<open>undefined\<close> or \<^verbatim>\<open>NaN\<close>) and the \<^verbatim>\<open>typeof ... !== 'number'\<close> tests are false.
\<close>

record subscriptionData =
  sd_userId :: "string option"
  sd_amount :: "int option"
  sd_numberOfMonths :: "int option"
  sd_msisdn :: "string option"
  sd_paymentChannel :: "string option"
  sd_country :: "string option"
  sd_currency :: "string option"
  sd_transactionCountry :: "string option"
  sd_transactionCurrency :: "string option"

text \<open>Truthiness of a number: \<^verbatim>\<open>undefined\<close>, \<^verbatim>\<open>NaN\<close> and 0 are falsy.\<close>

definition truthy_num :: "int option \<Rightarrow> bool" where
  "truthy_num v = (case v of None \<Rightarrow> False | Some n \<Rightarrow> n \<noteq> 0)"

text \<open>The validation at the head of the function: the message thrown, or \<open>None\<close>.\<close>

definition validate_subscriptionData :: "subscriptionData \<Rightarrow> string option" where
  "validate_subscriptionData d =
     (if \<not> truthy (sd_userId d) \<or> \<not> truthy_num (sd_amount d) \<or>
         \<not> truthy_num (sd_numberOfMonths d) \<or> \<not> truthy (sd_msisdn d) \<or>
         \<not> truthy (sd_paymentChannel d)
      then Some ''Missing required fields: userId, amount, numberOfMonths, msisdn, paymentChannel''
      else if toUpperCase (the (sd_paymentChannel d)) \<notin> set [''MTN'', ''AIRTEL'']
      then Some (''Invalid payment channel. Must be '' @ [CHR 0x22] @ ''MTN'' @ [CHR 0x22] @
                 '' or '' @ [CHR 0x22] @ ''AIRTEL'' @ [CHR 0x22])
      else if the (sd_amount d) \<le> 0
      then Some ''Amount must be a positive number''
      else if the (sd_numberOfMonths d) < 1
      then Some ''Number of months must be at least 1''
      else if \<not> uuidRegex_test (the (sd_userId d))
      then Some ''Invalid userId format. Must be a valid UUID''
      else None)"

text \<open>
  The environment of one call: the identifier from \<^verbatim>\<open>crypto.randomUUID()\<close>, the two
  provider payment calls (\<open>Inl msg\<close>: the call throws an error with that message), the
  outcome of each \<^verbatim>\<open>save()\<close> in the order of the code, the clock readings, and the
  calendar arithmetic of \<^verbatim>\<open>setMonth(getMonth() + n)\<close>.
\<close>

record subscription_env =
  randomUUID :: string
  ussdPushPayment :: "json \<Rightarrow> string \<Rightarrow> string \<Rightarrow> string + json"
  mtn_requestToPay :: "json \<Rightarrow> string + json"
  save_created :: "string option"
  save_endDate :: "string option"
  save_processed :: "string option"
  save_errored :: "string option"
  t_created :: date
  t_start :: date
  t_processed :: date
  t_completed :: date
  t_failed :: date
  addMonths :: "date \<Rightarrow> int \<Rightarrow> date"

definition new_Subscription ::
  "subscription_env \<Rightarrow> subscriptionData \<Rightarrow> string \<Rightarrow> string \<Rightarrow> string \<Rightarrow> Subscription" where
  "new_Subscription env d cur channel tid =
     \<lparr>createdAt = t_created env, status = ''PENDING'',
      mtnResponse = None, mtnError = None, amount = the (sd_amount d), currency = cur,
      processedAt = None, completedAt = None,
      userId = the (sd_userId d), numberOfMonths = the (sd_numberOfMonths d),
      paymentChannel = channel, msisdn = the (sd_msisdn d), transactionId = tid,
      airtelMoneyId = None, mtnReferenceId = None, airtelStatus = None, mtnStatus = None,
      startDate = None, endDate = None, airtelResponse = None, airtelError = None\<rparr>"

text \<open>
  \<open>subscriptionSchema.methods.calculateEndDate\<close>: \<open>Inl\<close> carries the message of the
  rejected \<^verbatim>\<open>save()\<close> and the document as it stands then.
\<close>

definition calculateEndDate ::
  "subscription_env \<Rightarrow> nat \<Rightarrow> Subscription \<Rightarrow> Subscription list
     \<Rightarrow> ((string \<times> Subscription) + Subscription) \<times> Subscription list" where
  "calculateEndDate env i s subs =
     (if status s = ''SUCCESSFUL'' \<and> truthy_date (startDate s)
      then (let s1 = s\<lparr>endDate := Some (addMonths env (the (startDate s)) (numberOfMonths s))\<rparr>
            in case save_doc (save_endDate env) i s1 subs of
                 Inl msg \<Rightarrow> (Inl (msg, s1), subs)
               | Inr subs1 \<Rightarrow> (Inr s1, subs1))
      else (Inr s, subs))"

definition airtel_paymentData :: "subscriptionData \<Rightarrow> string \<Rightarrow> string \<Rightarrow> string \<Rightarrow> json" where
  "airtel_paymentData d country cur tid =
     JObj [(''reference'', JStr (''Subscription payment for '' @
                                 show_nat (nat (the (sd_numberOfMonths d))) @ '' month(s)'')),
           (''subscriber'', JObj [(''country'', JStr country), (''currency'', JStr cur),
                                  (''msisdn'', JStr (the (sd_msisdn d)))]),
           (''transaction'',
            JObj ([(''amount'', JNum (the (sd_amount d))), (''id'', JStr tid)] @
                  (if truthy (sd_transactionCountry d)
                   then [(''country'', JStr (the (sd_transactionCountry d)))] else []) @
                  (if truthy (sd_transactionCurrency d)
                   then [(''currency'', JStr (the (sd_transactionCurrency d)))] else [])))]"

definition mtn_paymentData :: "subscriptionData \<Rightarrow> string \<Rightarrow> string \<Rightarrow> json" where
  "mtn_paymentData d cur tid =
     JObj [(''amount'', JNum (the (sd_amount d))),
           (''currency'', JStr cur),
           (''externalId'', JStr tid),
           (''payer'', JObj [(''partyIdType'', JStr ''MSISDN''),
                             (''partyId'', JStr (the (sd_msisdn d)))]),
           (''payerMessage'', JStr (''Subscription payment for '' @
                                    show_nat (nat (the (sd_numberOfMonths d))) @ '' month(s)'')),
           (''payeeNote'', JStr (''Tsinda subscription - '' @
                                 show_nat (nat (the (sd_numberOfMonths d))) @ '' month(s)''))]"

text \<open>
  The Airtel branch after the provider answered: the response is recorded and the main
  status follows \<^verbatim>\<open>paymentResponse.data.transaction.status\<close>.
\<close>

definition airtel_response_applied ::
  "subscription_env \<Rightarrow> nat \<Rightarrow> json \<Rightarrow> Subscription \<Rightarrow> Subscription list
     \<Rightarrow> ((string \<times> Subscription) + Subscription) \<times> Subscription list" where
  "airtel_response_applied env i paymentResponse subscription subs =
     (let s1 = subscription\<lparr>airtelResponse := Some paymentResponse\<rparr>;
          data = field (Some paymentResponse) ''data''
      in if truthy_json data \<and> truthy_json (field data ''transaction'')
         then
           (let transaction = field data ''transaction'';
                transactionStatus = field transaction ''status'';
                s2 = s1\<lparr>airtelStatus := transactionStatus\<rparr>;
                s3 = (if truthy_json (field transaction ''airtel_money_id'')
                      then s2\<lparr>airtelMoneyId := field transaction ''airtel_money_id''\<rparr> else s2)
            in if transactionStatus = Some (JStr ''TS'')
               then calculateEndDate env i
                      (s3\<lparr>status := ''SUCCESSFUL'', startDate := Some (t_start env),
                          processedAt := Some (t_processed env)\<rparr>) subs
               else if transactionStatus = Some (JStr ''TF'')
               then (Inr (s3\<lparr>status := ''FAILED'', completedAt := Some (t_completed env)\<rparr>), subs)
               else (Inr (s3\<lparr>status := ''PENDING''\<rparr>), subs))
         else (Inr s1, subs))"

definition mtn_response_applied ::
  "subscription_env \<Rightarrow> nat \<Rightarrow> json \<Rightarrow> Subscription \<Rightarrow> Subscription list
     \<Rightarrow> ((string \<times> Subscription) + Subscription) \<times> Subscription list" where
  "mtn_response_applied env i paymentResponse subscription subs =
     (let s1 = subscription\<lparr>mtnResponse := Some paymentResponse\<rparr>;
          s2 = (if truthy_json (field (Some paymentResponse) ''xReferenceId'')
                then s1\<lparr>mtnReferenceId := field (Some paymentResponse) ''xReferenceId''\<rparr> else s1)
      in if truthy_json (field (Some paymentResponse) ''status'')
         then
           (let s3 = s2\<lparr>mtnStatus := field (Some paymentResponse) ''status''\<rparr>
            in if field (Some paymentResponse) ''status'' = Some (JStr ''SUCCESSFUL'')
               then calculateEndDate env i
                      (s3\<lparr>status := ''SUCCESSFUL'', startDate := Some (t_start env),
                          processedAt := Some (t_processed env)\<rparr>) subs
               else if field (Some paymentResponse) ''status'' = Some (JStr ''FAILED'')
               then (Inr (s3\<lparr>status := ''FAILED'', completedAt := Some (t_completed env)\<rparr>), subs)
               else (Inr (s3\<lparr>status := ''PENDING''\<rparr>), subs))
         else (Inr s2, subs))"

text \<open>
  The inner \<^verbatim>\<open>try\<close> block: the provider call of the channel, the response handling and
  the final \<^verbatim>\<open>save()\<close>. \<open>Inl (msg, s)\<close>: something threw \<open>msg\<close> while the document in
  memory was \<open>s\<close>.
\<close>

definition subscription_try ::
  "subscription_env \<Rightarrow> subscriptionData \<Rightarrow> string \<Rightarrow> string \<Rightarrow> string \<Rightarrow> string \<Rightarrow> nat
     \<Rightarrow> Subscription \<Rightarrow> Subscription list
     \<Rightarrow> ((string \<times> Subscription) + Subscription) \<times> Subscription list" where
  "subscription_try env d channel country cur tid i subscription subs =
     (case (if channel = ''AIRTEL''
            then (case ussdPushPayment env (airtel_paymentData d country cur tid) country cur of
                    Inl msg \<Rightarrow> (Inl (msg, subscription), subs)
                  | Inr paymentResponse \<Rightarrow>
                      airtel_response_applied env i paymentResponse subscription subs)
            else if channel = ''MTN''
            then (case mtn_requestToPay env (mtn_paymentData d cur tid) of
                    Inl msg \<Rightarrow> (Inl (msg, subscription), subs)
                  | Inr paymentResponse \<Rightarrow>
                      mtn_response_applied env i paymentResponse subscription subs)
            else (Inr subscription, subs)) of
        (Inl thrown, subs1) \<Rightarrow> (Inl thrown, subs1)
      | (Inr s, subs1) \<Rightarrow>
          (case save_doc (save_processed env) i s subs1 of
             Inl msg \<Rightarrow> (Inl (msg, s), subs1)
           | Inr subs2 \<Rightarrow> (Inr s, subs2)))"

text \<open>
  The inner \<^verbatim>\<open>catch\<close> block: mark the document failed, store the error under the
  channel's field, save, and rethrow the error caught (or the one of this \<^verbatim>\<open>save()\<close>).
\<close>

definition subscription_catch ::
  "subscription_env \<Rightarrow> string \<Rightarrow> nat \<Rightarrow> string \<Rightarrow> Subscription \<Rightarrow> Subscription list
     \<Rightarrow> string \<times> Subscription list" where
  "subscription_catch env channel i msg subscription subs =
     (let s1 = subscription\<lparr>status := ''FAILED''\<rparr>;
          s2 = (if channel = ''AIRTEL'' then s1\<lparr>airtelError := Some (JObj [(''message'', JStr msg)])\<rparr>
                else if channel = ''MTN'' then s1\<lparr>mtnError := Some (JObj [(''message'', JStr msg)])\<rparr>
                else s1);
          s3 = s2\<lparr>completedAt := Some (t_failed env)\<rparr>
      in case save_doc (save_errored env) i s3 subs of
           Inl saveError \<Rightarrow> (saveError, subs)
         | Inr subs1 \<Rightarrow> (msg, subs1))"

text \<open>
  The result is the message of the error thrown (\<open>Inl\<close>) or the subscription returned
  (as \<open>toSubscriptionDTO\<close> projects it); the second component is the Subscription
  collection after the call.
\<close>

definition createSubscriptionPayment ::
  "subscription_env \<Rightarrow> subscriptionData \<Rightarrow> Subscription list
     \<Rightarrow> (string + Subscription) \<times> Subscription list" where
  "createSubscriptionPayment env d subs =
     (case validate_subscriptionData d of
        Some msg \<Rightarrow> (Inl (''Subscription payment failed: '' @ msg), subs)
      | None \<Rightarrow>
          (let channel = toUpperCase (the (sd_paymentChannel d));
               country = or_else (sd_country d) ''RW'';
               cur = or_else (sd_currency d) ''RWF'';
               tid = ''SUB-'' @ randomUUID env;
               subscription = new_Subscription env d cur channel tid;
               i = length subs
           in case save_doc (save_created env) i subscription subs of
                Inl msg \<Rightarrow> (Inl (''Subscription payment failed: '' @ msg), subs)
              | Inr subs1 \<Rightarrow>
                  (case subscription_try env d channel country cur tid i subscription subs1 of
                     (Inr s, subs2) \<Rightarrow> (Inr s, subs2)
                   | (Inl (msg, s), subs2) \<Rightarrow>
                       (case subscription_catch env channel i msg s subs2 of
                          (thrown, subs3) \<Rightarrow>
                            (Inl (''Subscription payment failed: '' @ thrown), subs3)))))"

section \<open>MTN payment requests (MTNCollectionService.requestToPay, MTNPaymentService.requestPayment)\<close>

text \<open>\<^verbatim>\<open>String.prototype.trim\<close> on ASCII white space.\<close>

definition is_space :: "char \<Rightarrow> bool" where
  "is_space c = ((of_char c :: nat) \<in> set [9, 10, 11, 12, 13, 32])"

definition trim :: "string \<Rightarrow> string" where
  "trim s = rev (dropWhile is_space (rev (dropWhile is_space s)))"

text \<open>The \<open>requestData\<close> object that \<open>requestPayment\<close> builds for \<open>requestToPay\<close>.\<close>

record requestData =
  rd_amount :: string
  rd_currency :: string
  rd_externalId :: string
  rd_partyIdType :: string
  rd_partyId :: string
  rd_payerMessage :: string
  rd_payeeNote :: string

text \<open>The provider's answer to a request-to-pay: \<^verbatim>\<open>response.status\<close> and
  \<^verbatim>\<open>JSON.stringify(errorBody)\<close>.\<close>

record pay_response =
  pay_status :: nat
  pay_body_text :: string

definition requestToPay_request ::
  "config \<Rightarrow> string \<Rightarrow> string \<Rightarrow> requestData \<Rightarrow> string \<Rightarrow> string \<Rightarrow> http_request" where
  "requestToPay_request cfg token referenceId rd targetEnvironment finalCallbackUrl =
     \<lparr>req_method = ''POST'',
      req_url = mtn_baseURL cfg @ ''/collection/v1_0/requesttopay'',
      req_headers = [(''Authorization'', ''Bearer '' @ token),
                     (''Content-Type'', ''application/json''),
                     (''X-Reference-Id'', referenceId),
                     (''X-Target-Environment'', targetEnvironment),
                     (''X-Callback-Url'', trim finalCallbackUrl),
                     (''Ocp-Apim-Subscription-Key'', collection_subscriptionKey cfg)],
      req_body = Some (JObj [(''amount'', JStr (rd_amount rd)),
                             (''currency'', JStr (rd_currency rd)),
                             (''externalId'', JStr (rd_externalId rd)),
                             (''payer'', JObj [(''partyIdType'', JStr (rd_partyIdType rd)),
                                               (''partyId'', JStr (rd_partyId rd))]),
                             (''payerMessage'', JStr (rd_payerMessage rd)),
                             (''payeeNote'', JStr (rd_payeeNote rd))])\<rparr>"

text \<open>
  What the function does with the provider's answer: 202 is the only status it returns
  on; the messages are those thrown inside the \<^verbatim>\<open>try\<close> block.
\<close>

definition requestToPay_outcome :: "string \<Rightarrow> pay_response \<Rightarrow> string + nat \<times> string" where
  "requestToPay_outcome referenceId response =
     (if pay_status response = 202 then Inr (pay_status response, referenceId)
      else if pay_status response = 400 then Inl (''Bad Request: '' @ pay_body_text response)
      else if pay_status response = 409
      then Inl (''Conflict - Reference ID already in use: '' @ pay_body_text response)
      else if pay_status response = 500
      then Inl (''Internal Server Error: '' @ pay_body_text response)
      else Inl (''Failed to request payment: '' @ show_nat (pay_status response) @ '' '' @
                pay_body_text response))"

text \<open>
  \<open>requestToPay\<close> (the version that reads \<^verbatim>\<open>process.env.MTN_CALLBACK_URL\<close>). The token
  comes from \<open>getValidToken\<close>; a token that is \<^verbatim>\<open>undefined\<close> makes the logging line
  \<^verbatim>\<open>token.substring(0, 20)\<close> throw before the request is sent. Every error is rethrown
  with the prefix \<open>Failed to request payment: \<close>. The state is the MTNUser collection.
\<close>

definition requestToPay ::
  "config \<Rightarrow> collection_env \<Rightarrow> (http_request \<Rightarrow> string + pay_response) \<Rightarrow> string \<Rightarrow> requestData
     \<Rightarrow> string \<Rightarrow> MTNUser list \<Rightarrow> (string + nat \<times> string) \<times> MTNUser list" where
  "requestToPay cfg env fetch referenceId rd targetEnvironment users =
     (case getValidToken cfg env users of
        (Inl msg, users1) \<Rightarrow> (Inl (''Failed to request payment: '' @ msg), users1)
      | (Inr token, users1) \<Rightarrow>
          if \<not> truthy (env_MTN_CALLBACK_URL cfg)
          then (Inl (''Failed to request payment: '' @
                     ''MTN_CALLBACK_URL environment variable is not set. Please configure it in your .env file.''),
                users1)
          else
            (case token of
               None \<Rightarrow>
                 (Inl (''Failed to request payment: '' @
                       ''Cannot read properties of undefined (reading '' @ [CHR 0x27] @
                       ''substring'' @ [CHR 0x27] @ '')''), users1)
             | Some tok \<Rightarrow>
                 (case fetch (requestToPay_request cfg tok referenceId rd targetEnvironment
                                (the (env_MTN_CALLBACK_URL cfg))) of
                    Inl msg \<Rightarrow> (Inl (''Failed to request payment: '' @ msg), users1)
                  | Inr response \<Rightarrow>
                      (case requestToPay_outcome referenceId response of
                         Inl msg \<Rightarrow> (Inl (''Failed to request payment: '' @ msg), users1)
                       | Inr result \<Rightarrow> (Inr result, users1)))))"

text \<open>
  The environment of \<open>requestPayment\<close>: the identifier that \<^verbatim>\<open>crypto.randomUUID()\<close>
  yields, the provider endpoint, the outcome of the two \<^verbatim>\<open>payment.save()\<close> calls and
  the creation time of the payment document.
\<close>

record payment_env =
  pe_randomUUID :: string
  pe_fetch :: "http_request \<Rightarrow> string + pay_response"
  pe_save_pending :: "string option"
  pe_save_response :: "string option"
  pe_now :: date

record payment_options =
  opt_targetEnvironment :: "string option"
  opt_callbackUrl :: "string option"

text \<open>The object returned to the caller.\<close>

record payment_result =
  referenceId :: string
  res_status :: nat
  res_userId :: string
  res_phoneNumber :: string
  res_amount :: int
  res_currency :: string
  paymentId :: nat

definition new_pending_Payment ::
  "config \<Rightarrow> payment_env \<Rightarrow> MTNUser \<Rightarrow> string \<Rightarrow> string \<Rightarrow> string \<Rightarrow> int \<Rightarrow> Payment" where
  "new_pending_Payment cfg penv mtnUser refId uid phoneNumber amt =
     \<lparr>createdAt = pe_now penv, status = ''PENDING'',
      mtnResponse = None, mtnError = None, amount = amt, currency = ''RWF'',
      processedAt = None, completedAt = None,
      payment_xReferenceId = refId, apiUserId = Some (xReferenceId mtnUser),
      payment_apiKey = Some (apiKey mtnUser),
      transactionType = ''collection'', transactionSubType = ''request_to_pay'',
      externalId = uid, payer_partyIdType = Some ''MSISDN'', payer_partyId = Some phoneNumber,
      payee_partyIdType = None, payee_partyId = None,
      payerMessage = Some ''subscription'', payeeNote = Some ''tsinda'',
      referenceIdToRefund = None, payment_mtnStatus = Some ''PENDING'', metadata = [],
      serviceType = ''collections'', payment_subscriptionKey = Some (mtn_key_collections cfg)\<rparr>"

text \<open>
  \<open>MTNPaymentService.requestPayment\<close> (the version that stores the payment before it
  calls the provider). The state is the MTNUser and the Payment collection. The
  \<open>callbackUrl\<close> that the function computes from its options is handed to \<open>requestToPay\<close>,
  which does not read it (it reads \<^verbatim>\<open>process.env.MTN_CALLBACK_URL\<close> itself).
\<close>

definition requestPayment ::
  "config \<Rightarrow> collection_env \<Rightarrow> payment_env \<Rightarrow> string \<Rightarrow> string \<Rightarrow> int \<Rightarrow> payment_options
     \<Rightarrow> MTNUser list \<times> Payment list
     \<Rightarrow> (string + payment_result) \<times> MTNUser list \<times> Payment list" where
  "requestPayment cfg cenv penv uid phoneNumber amt options db =
     (let refId = pe_randomUUID penv;
          targetEnvironment =
            or_else (opt_targetEnvironment options)
              (or_else (env_MTN_TARGET_ENVIRONMENT cfg) ''mtnrwanda'');
          rd = \<lparr>rd_amount = show_int amt, rd_currency = ''RWF'', rd_externalId = uid,
                rd_partyIdType = ''MSISDN'', rd_partyId = phoneNumber,
                rd_payerMessage = ''subscription'', rd_payeeNote = ''tsinda''\<rparr>;
          users = fst db; payments = snd db
      in case getMTNUser cfg cenv users of
           (Inl msg, users1) \<Rightarrow> (Inl (''Failed to request payment: '' @ msg), users1, payments)
         | (Inr (i, mtnUser), users1) \<Rightarrow>
             (let payment = new_pending_Payment cfg penv mtnUser refId uid phoneNumber amt;
                  pid = length payments
              in case save_Payment (pe_save_pending penv) pid payment payments of
                   Inl msg \<Rightarrow> (Inl (''Failed to request payment: '' @ msg), users1, payments)
                 | Inr payments1 \<Rightarrow>
                     (case requestToPay cfg cenv (pe_fetch penv) refId rd targetEnvironment users1 of
                        (Inl msg, users2) \<Rightarrow>
                          (Inl (''Failed to request payment: '' @ msg), users2, payments1)
                      | (Inr (st, ref), users2) \<Rightarrow>
                          (case save_Payment (pe_save_response penv) pid
                                  (payment\<lparr>mtnResponse :=
                                     Some (JObj [(''status'', JNum (int st)),
                                                 (''referenceId'', JStr ref)])\<rparr>) payments1 of
                             Inl msg \<Rightarrow>
                               (Inl (''Failed to request payment: '' @ msg), users2, payments1)
                           | Inr payments2 \<Rightarrow>
                               (Inr \<lparr>referenceId = ref, res_status = st, res_userId = uid,
                                     res_phoneNumber = phoneNumber, res_amount = amt,
                                     res_currency = ''RWF'', paymentId = pid\<rparr>,
                                users2, payments2)))))"

section \<open>Concrete inputs\<close>

text \<open>Inputs at which the theorems below are instantiated.\<close>

definition ex_cfg :: config where
  "ex_cfg =
     \<lparr>mtn_baseURL = ''https://proxy.momoapi.mtn.co.rw'',
      mtn_key_collectionWidget = ''18ec'',
      mtn_key_collections = ''a79e'',
      mtn_key_disbursements = ''1ab1'',
      mtn_key_remittances = ''a01a'',
      env_MTN_COLLECTION_WIDGET_KEY = None,
      env_MTN_API_USER = Some ''user'',
      env_MTN_API_KEY = Some ''key'',
      env_MTN_PROVIDER_CALLBACK_HOST = None,
      env_MTN_CALLBACK_URL = Some ''https://example.org/api/mtn-payment/callback'',
      env_MTN_TARGET_ENVIRONMENT = None,
      env_BASE_URL = None,
      airtel_baseURL = ''https://openapiuat.airtel.africa/'',
      airtel_clientId = Some ''cid'',
      airtel_clientSecret = Some ''secret''\<rparr>"

text \<open>A token endpoint that always answers 200 with the token \<open>new-token\<close> and the given lifetime.\<close>

definition ex_token_answer :: "int option \<Rightarrow> token_http_response" where
  "ex_token_answer life =
     \<lparr>http_status = 200, status_text = ''OK'', body_text = ''{}'',
      token_body = \<lparr>access_token = Some ''new-token'', expires_in = life,
                    token_type = Some ''Bearer'', token_scope = None\<rparr>\<rparr>"

definition ex_collection_env :: "int option \<Rightarrow> collection_env" where
  "ex_collection_env life =
     \<lparr>ce_fetch = (\<lambda>request. Inr (ex_token_answer life)),
      ce_save = None, ce_now_create = 1000000, ce_now = 1000000, ce_now_store = 1000002\<rparr>"



definition ex_usage :: usageStats where
  "ex_usage = \<lparr>totalTransactions = 5, successfulTransactions = 3,
                failedTransactions = 2, lastUsedAt = None\<rparr>"

text \<open>An active MTN record with the given collection token and expiry; its disbursement
  token is good until long after every clock reading above.\<close>

definition ex_MTNUser :: "string option \<Rightarrow> date option \<Rightarrow> MTNUser" where
  "ex_MTNUser tok expiry =
     \<lparr>createdAt = 0, isActive = True, usageStats = ex_usage, retryAttempts = 3,
      xReferenceId = ''user'', apiKey = ''key'',
      collectionToken = tok, disbursementToken = Some ''disbursement-token'',
      collectionTokenExpiresAt = expiry, disbursementTokenExpiresAt = Some 9000000\<rparr>"


text \<open>A callback environment in which every database operation succeeds.\<close>

definition ex_callback_env :: callback_env where
  "ex_callback_env =
     \<lparr>save_callback = None, find_payment = None, save_payment = None,
      mark_processed = None, save_failed_callback = None,
      now_callback = 5000, now_payment = 5001, now_processed = 5002\<rparr>"

definition ex_request :: "json option \<Rightarrow> request" where
  "ex_request b =
     \<lparr>body = b, ip = Some ''10.0.0.1'', remoteAddress = None, forwardedFor = None,
      userAgent = Some ''MTN-MoMo''\<rparr>"

text \<open>An MTN callback body for the application user \<open>user-1\<close> with the given status.\<close>

definition ex_mtn_body :: "string \<Rightarrow> json" where
  "ex_mtn_body st =
     JObj [(''financialTransactionId'', JStr ''363440463''),
           (''externalId'', JStr ''user-1''),
           (''amount'', JStr ''100''),
           (''currency'', JStr ''RWF''),
           (''status'', JStr st)]"

text \<open>A pending collection payment of \<open>user-1\<close> that passes the validators of the schema,
  created at the given time.\<close>

definition ex_Payment :: "string \<Rightarrow> date \<Rightarrow> Payment" where
  "ex_Payment ref created =
     \<lparr>createdAt = created, status = ''PENDING'',
      mtnResponse = None, mtnError = None, amount = 100, currency = ''EUR'',
      processedAt = None, completedAt = None,
      payment_xReferenceId = ref, apiUserId = Some ''user'', payment_apiKey = Some ''key'',
      transactionType = ''collection'', transactionSubType = ''request_to_pay'',
      externalId = ''user-1'', payer_partyIdType = Some ''MSISDN'',
      payer_partyId = Some ''250780000000'',
      payee_partyIdType = None, payee_partyId = None, payerMessage = Some ''subscription'',
      payeeNote = Some ''tsinda'', referenceIdToRefund = None,
      payment_mtnStatus = Some ''PENDING'', metadata = [], serviceType = ''collections'', payment_subscriptionKey = Some ''a79e''\<rparr>"

definition ex_airtel_body :: json where
  "ex_airtel_body =
     JObj [(''transaction'',
            JObj [(''id'', JStr ''SUB-1''), (''message'', JStr ''Paid''),
                  (''status_code'', JStr ''TS''), (''airtel_money_id'', JStr ''MP210603.1234.L06941'')])]"

text \<open>A pending Airtel subscription whose transaction id is the one of \<open>ex_airtel_body\<close>.\<close>

definition ex_Subscription :: Subscription where
  "ex_Subscription =
     \<lparr>createdAt = 1000, status = ''PENDING'',
      mtnResponse = None, mtnError = None, amount = 100, currency = ''RWF'',
      processedAt = None, completedAt = None,
      userId = ''123e4567-e89b-12d3-a456-426614174000'', numberOfMonths = 1,
      paymentChannel = ''AIRTEL'', msisdn = ''780000000'', transactionId = ''SUB-1'',
      airtelMoneyId = None, mtnReferenceId = None, airtelStatus = None, mtnStatus = None,
      startDate = None, endDate = None, airtelResponse = None, airtelError = None\<rparr>"

text \<open>A subscription request over the given channel, and an environment whose provider
  calls both throw and whose saves succeed.\<close>

definition ex_subscriptionData :: "string \<Rightarrow> subscriptionData" where
  "ex_subscriptionData channel =
     \<lparr>sd_userId = Some ''123e4567-e89b-12d3-a456-426614174000'',
      sd_amount = Some 5000, sd_numberOfMonths = Some 3,
      sd_msisdn = Some ''780000000'', sd_paymentChannel = Some channel,
      sd_country = None, sd_currency = None,
      sd_transactionCountry = None, sd_transactionCurrency = None\<rparr>"

definition ex_subscription_env :: subscription_env where
  "ex_subscription_env =
     \<lparr>randomUUID = ''0b7e9a52-1c7f-4c55-9d3e-6a1f2b3c4d5e'',
      ussdPushPayment = (\<lambda>paymentData country cur. Inl ''USSD Push payment failed: timeout''),
      mtn_requestToPay = (\<lambda>paymentData. Inl ''Request to pay failed: timeout''),
      save_created = None, save_endDate = None, save_processed = None, save_errored = None,
      t_created = 7000, t_start = 7001, t_processed = 7002, t_completed = 7003, t_failed = 7004,
      addMonths = (\<lambda>start n. start + n * 2592000000)\<rparr>"

text \<open>A provider that accepts every request-to-pay with 202.\<close>

definition ex_payment_env :: payment_env where
  "ex_payment_env =
     \<lparr>pe_randomUUID = ''7c5d5c5e-9a3b-4f0e-8d77-2f6a1e5b9c10'',
      pe_fetch = (\<lambda>request. Inr \<lparr>pay_status = 202, pay_body_text = ''{}''\<rparr>),
      pe_save_pending = None, pe_save_response = None, pe_now = 1000000\<rparr>"

definition ex_payment_options :: payment_options where
  "ex_payment_options = \<lparr>opt_targetEnvironment = None, opt_callbackUrl = None\<rparr>"

text \<open>
  An Airtel answer that reports the transaction as successful (\<open>TS\<close>), and an environment
  whose provider gives that answer and whose last \<^verbatim>\<open>subscription.save()\<close> of the
  \<^verbatim>\<open>try\<close> block has the given outcome.
\<close>

definition ex_airtel_success :: json where
  "ex_airtel_success =
     JObj [(''data'', JObj [(''transaction'',
                            JObj [(''id'', JStr ''SUB-1''), (''status'', JStr ''TS''),
                                  (''airtel_money_id'', JStr ''MP240101.1234.A00001'')])]),
           (''status'', JObj [(''code'', JStr ''200''), (''success'', JBool True)])]"

definition ex_paid_env :: "string option \<Rightarrow> subscription_env" where
  "ex_paid_env last_save =
     ex_subscription_env\<lparr>ussdPushPayment := (\<lambda>paymentData country cur. Inr ex_airtel_success),
                         save_processed := last_save\<rparr>"

section \<open>Theorems\<close>

lemma bump_usage_total:
  "totalTransactions (bump_usage s b now) = totalTransactions s + 1"
  by (simp add: bump_usage_def Let_def)

lemma bump_usage_successful:
  "successfulTransactions (bump_usage s b now) = successfulTransactions s + (if b then 1 else 0)"
  by (simp add: bump_usage_def Let_def)

lemma bump_usage_failed:
  "failedTransactions (bump_usage s b now) = failedTransactions s + (if b then 0 else 1)"
  by (simp add: bump_usage_def Let_def)

text \<open>
  Claim C10. Every call of \<open>incrementUsage\<close> on an MTN or Airtel credential record adds
  exactly 1 to \<open>totalTransactions\<close>, exactly 1 to \<open>successfulTransactions\<close> when
  \<open>success\<close> is true and to \<open>failedTransactions\<close> when it is false, and leaves the other
  counter unchanged; so \<open>totalTransactions = successfulTransactions + failedTransactions\<close>
  is preserved.
\<close>

theorem incrementUsage_counts:
  "totalTransactions (usageStats (MTNUser_incrementUsage m success now))
      = totalTransactions (usageStats m) + 1
   \<and> successfulTransactions (usageStats (MTNUser_incrementUsage m success now))
      = successfulTransactions (usageStats m) + (if success then 1 else 0)
   \<and> failedTransactions (usageStats (MTNUser_incrementUsage m success now))
      = failedTransactions (usageStats m) + (if success then 0 else 1)
   \<and> totalTransactions (usageStats (AirtelUser_incrementUsage a success now))
      = totalTransactions (usageStats a) + 1
   \<and> successfulTransactions (usageStats (AirtelUser_incrementUsage a success now))
      = successfulTransactions (usageStats a) + (if success then 1 else 0)
   \<and> failedTransactions (usageStats (AirtelUser_incrementUsage a success now))
      = failedTransactions (usageStats a) + (if success then 0 else 1)
   \<and> (usage_consistent (usageStats (MTNUser_incrementUsage m success now))
        = usage_consistent (usageStats m))
   \<and> (usage_consistent (usageStats (AirtelUser_incrementUsage a success now))
        = usage_consistent (usageStats a))"
  by (simp add: MTNUser_incrementUsage_def AirtelUser_incrementUsage_def usage_consistent_def
        bump_usage_total bump_usage_successful bump_usage_failed)


subsection \<open>Helper lemmas: the credential store and the refresh steps\<close>



lemma findOne_active_Some:
  assumes "findOne_active docs = Some (i, u)"
  shows "i < length docs \<and> docs ! i = u \<and> isActive u"
proof -
  from assms obtain k where k: "k < length (enumerate 0 docs)" "enumerate 0 docs ! k = (i, u)" "isActive u"
    unfolding findOne_active_def by (auto simp: find_Some_iff)
  then have "k < length docs" by simp
  then have "enumerate 0 docs ! k = (k, docs ! k)" by (simp add: nth_enumerate_eq)
  with k show ?thesis by auto
qed

lemma getMTNUser_found:
  "findOne_active docs = Some (i, u) \<Longrightarrow> getMTNUser cfg env docs = (Inr (i, u), docs)"
  by (simp add: getMTNUser_def)

lemma getToken_ok:
  "fetch (getToken_request cfg x k) = Inr resp \<Longrightarrow> response_ok resp \<Longrightarrow>
   getToken cfg fetch x k = Inr (token_body resp)"
  by (simp add: getToken_def)

lemma getValidToken_cached:
  assumes "findOne_active docs = Some (i, u)"
    and "truthy (collectionToken u)"
    and "collectionTokenExpiresAt u = Some e"
    and "ce_now env < e - 30000"
  shows "getValidToken cfg env docs = (Inr (collectionToken u), docs)"
  using assms by (simp add: getValidToken_def getMTNUser_found truthy_date_def)


lemma collection_needs_refresh_iff:
  "collection_needs_refresh env u =
     (\<not> (truthy (collectionToken u) \<and>
         (\<exists>e. collectionTokenExpiresAt u = Some e \<and> ae_now_valid env < e \<and> ae_now env < e - 300000)))"
  by (auto simp: collection_needs_refresh_def collectionTokenValid_def truthy_date_def split: option.splits)

lemma disbursement_needs_refresh_iff:
  "disbursement_needs_refresh env u =
     (\<not> (truthy (disbursementToken u) \<and>
         (\<exists>e. disbursementTokenExpiresAt u = Some e \<and> ae_now_valid env < e \<and> ae_now env < e - 300000)))"
  by (auto simp: disbursement_needs_refresh_def disbursementTokenValid_def truthy_date_def split: option.splits)

lemma airtel_needs_refresh_iff:
  "airtel_needs_refresh env u =
     (\<not> (truthy (accessToken u) \<and>
         (\<exists>e. tokenExpiresAt u = Some e \<and> ae_now_valid env < e \<and> ae_now env < e - 300000)))"
  by (auto simp: airtel_needs_refresh_def tokenValid_def truthy_date_def split: option.splits)


lemma refresh_collection_kept:
  assumes "truthy (collectionToken u)" "collectionTokenExpiresAt u = Some e"
    "ae_now env < e - 300000" "ae_now_valid env < e"
  shows "refresh_collection cfg env i u docs = (Inr u, docs)"
  using assms by (simp add: refresh_collection_def collection_needs_refresh_iff)

lemma refresh_collection_refreshed:
  assumes stale: "\<not> (truthy (collectionToken u) \<and>
              (\<exists>e. collectionTokenExpiresAt u = Some e \<and> ae_now env < e - 300000))"
    and call: "ae_post env (createCollectionToken_request cfg (xReferenceId u) (apiKey u)) = Inr resp"
    and sv: "ae_save env = None"
    and i: "i < length docs"
  shows "refresh_collection cfg env i u docs =
           (Inr (u\<lparr>collectionToken := access_token (token_body resp),
                    collectionTokenExpiresAt :=
                      Some (ae_now_store env + expiresIn_default (expires_in (token_body resp)) * 1000)\<rparr>),
            docs[i := u\<lparr>collectionToken := access_token (token_body resp),
                         collectionTokenExpiresAt :=
                           Some (ae_now_store env + expiresIn_default (expires_in (token_body resp)) * 1000)\<rparr>])"
proof -
  have n: "collection_needs_refresh env u"
    using stale by (auto simp: collection_needs_refresh_iff)
  show ?thesis
    using n i
    by (simp add: refresh_collection_def createCollectionToken_def call sv save_doc_def
          updateCollectionToken_def Let_def)
qed

lemma refresh_disbursement_kept:
  assumes "truthy (disbursementToken u)" "disbursementTokenExpiresAt u = Some e"
    "ae_now env < e - 300000" "ae_now_valid env < e"
  shows "refresh_disbursement cfg env i u docs = (Inr u, docs)"
  using assms by (simp add: refresh_disbursement_def disbursement_needs_refresh_iff)

lemma refresh_disbursement_refreshed:
  assumes stale: "\<not> (truthy (disbursementToken u) \<and>
              (\<exists>e. disbursementTokenExpiresAt u = Some e \<and> ae_now env < e - 300000))"
    and call: "ae_post env (createDisbursementToken_request cfg (xReferenceId u) (apiKey u)) = Inr resp"
    and sv: "ae_save env = None"
    and i: "i < length docs"
  shows "refresh_disbursement cfg env i u docs =
           (Inr (u\<lparr>disbursementToken := access_token (token_body resp),
                    disbursementTokenExpiresAt :=
                      Some (ae_now_store env + expiresIn_default (expires_in (token_body resp)) * 1000)\<rparr>),
            docs[i := u\<lparr>disbursementToken := access_token (token_body resp),
                         disbursementTokenExpiresAt :=
                           Some (ae_now_store env + expiresIn_default (expires_in (token_body resp)) * 1000)\<rparr>])"
proof -
  have n: "disbursement_needs_refresh env u"
    using stale by (auto simp: disbursement_needs_refresh_iff)
  show ?thesis
    using n i
    by (simp add: refresh_disbursement_def createDisbursementToken_def call sv save_doc_def
          updateDisbursementToken_def Let_def)
qed

lemma Airtel_refresh_kept:
  assumes "truthy (accessToken u)" "tokenExpiresAt u = Some e"
    "ae_now env < e - 300000" "ae_now_valid env < e"
  shows "Airtel_refreshTokensIfNeeded cfg env i u docs = (Inr u, docs)"
  using assms by (simp add: Airtel_refreshTokensIfNeeded_def airtel_needs_refresh_iff)

lemma Airtel_refresh_refreshed:
  assumes stale: "\<not> (truthy (accessToken u) \<and>
              (\<exists>e. tokenExpiresAt u = Some e \<and> ae_now env < e - 300000))"
    and sent: "getAccessToken_sent cfg = Some request"
    and call: "ae_post env request = Inr resp"
    and ok: "response_ok resp"
    and sv: "ae_save env = None"
    and i: "i < length docs"
  shows "Airtel_refreshTokensIfNeeded cfg env i u docs =
           (Inr (updateToken u (access_token (token_body resp)) (expires_in (token_body resp))
                   (token_type (token_body resp)) (token_scope (token_body resp)) (ae_now_store env)),
            docs[i := updateToken u (access_token (token_body resp)) (expires_in (token_body resp))
                   (token_type (token_body resp)) (token_scope (token_body resp)) (ae_now_store env)])"
proof -
  have n: "airtel_needs_refresh env u"
    using stale by (auto simp: airtel_needs_refresh_iff)
  have g: "getAccessToken cfg (ae_post env) = Inr (token_body resp)"
    using sent call ok by (simp add: getAccessToken_def)
  show ?thesis
    using n i
    by (simp add: Airtel_refreshTokensIfNeeded_def g sv save_doc_def Let_def)
qed

lemma updateToken_fields:
  "accessToken (updateToken u tok ex tt sc tnow) = tok \<and>
   tokenExpiresAt (updateToken u tok ex tt sc tnow) = Some (tnow + expiresIn_default ex * 1000)"
  by (simp add: updateToken_def Let_def)


lemma getCollectionToken_kept:
  assumes f: "findOne_active docs = Some (i, u)"
    and c: "truthy (collectionToken u)" "collectionTokenExpiresAt u = Some e"
       "ae_now env < e - 300000" "ae_now_valid env < e"
    and d: "truthy (disbursementToken u)" "disbursementTokenExpiresAt u = Some e'"
       "ae_now env < e' - 300000" "ae_now_valid env < e'"
  shows "getCollectionToken cfg env createNew docs = (Inr (collectionToken u), docs)"
proof -
  have "docs ! i = u" using findOne_active_Some[OF f] by simp
  then show ?thesis
    by (simp add: getCollectionToken_def initializeMTNUser_def f MTN_refreshTokensIfNeeded_def
          refresh_collection_kept[OF c] refresh_disbursement_kept[OF d])
qed

lemma getCollectionToken_refreshed:
  assumes f: "findOne_active docs = Some (i, u)"
    and stale: "\<not> (truthy (collectionToken u) \<and>
              (\<exists>e. collectionTokenExpiresAt u = Some e \<and> ae_now env < e - 300000))"
    and call: "ae_post env (createCollectionToken_request cfg (xReferenceId u) (apiKey u)) = Inr resp"
    and sv: "ae_save env = None"
    and d: "truthy (disbursementToken u)" "disbursementTokenExpiresAt u = Some e'"
       "ae_now env < e' - 300000" "ae_now_valid env < e'"
  shows "getCollectionToken cfg env createNew docs =
           (Inr (access_token (token_body resp)),
            docs[i := u\<lparr>collectionToken := access_token (token_body resp),
                         collectionTokenExpiresAt :=
                           Some (ae_now_store env + expiresIn_default (expires_in (token_body resp)) * 1000)\<rparr>])"
proof -
  let ?u1 = "u\<lparr>collectionToken := access_token (token_body resp),
                collectionTokenExpiresAt :=
                  Some (ae_now_store env + expiresIn_default (expires_in (token_body resp)) * 1000)\<rparr>"
  have i: "i < length docs" using findOne_active_Some[OF f] by simp
  have d1: "truthy (disbursementToken ?u1)" "disbursementTokenExpiresAt ?u1 = Some e'"
    using d by simp_all
  show ?thesis
    using i
    by (simp add: getCollectionToken_def initializeMTNUser_def f MTN_refreshTokensIfNeeded_def
          refresh_collection_refreshed[OF stale call sv i]
          refresh_disbursement_kept[OF d1 d(3) d(4)])
qed

lemma getValidAccessToken_kept:
  assumes f: "findOne_active docs = Some (i, u)"
    and c: "truthy (accessToken u)" "tokenExpiresAt u = Some e"
       "ae_now env < e - 300000" "ae_now_valid env < e"
  shows "getValidAccessToken cfg env createNew docs = (Inr (accessToken u), docs)"
proof -
  have "docs ! i = u" using findOne_active_Some[OF f] by simp
  then show ?thesis
    by (simp add: getValidAccessToken_def initializeAirtelUser_def f Airtel_refresh_kept[OF c])
qed

lemma getValidAccessToken_refreshed:
  assumes f: "findOne_active docs = Some (i, u)"
    and stale: "\<not> (truthy (accessToken u) \<and>
              (\<exists>e. tokenExpiresAt u = Some e \<and> ae_now env < e - 300000))"
    and sent: "getAccessToken_sent cfg = Some request"
    and call: "ae_post env request = Inr resp"
    and ok: "response_ok resp"
    and sv: "ae_save env = None"
  shows "getValidAccessToken cfg env createNew docs =
           (Inr (access_token (token_body resp)),
            docs[i := updateToken u (access_token (token_body resp)) (expires_in (token_body resp))
                   (token_type (token_body resp)) (token_scope (token_body resp)) (ae_now_store env)])"
proof -
  have i: "i < length docs" using findOne_active_Some[OF f] by simp
  show ?thesis
    using i
    by (simp add: getValidAccessToken_def initializeAirtelUser_def f
          Airtel_refresh_refreshed[OF stale sent call ok sv i] updateToken_fields)
qed

lemma lifetime_rules:
  "expires_in_or_180 None = 180 \<and> expires_in_or_180 (Some 0) = 180 \<and>
   expiresIn_default None = 3600 \<and> expiresIn_default (Some x) = x"
  by (simp add: expires_in_or_180_def expiresIn_default_def)


subsection \<open>Helper lemmas: both tokens on the MTN auth path\<close>



lemma updateCollectionToken_other [simp]:
  "xReferenceId (updateCollectionToken u tok ex t) = xReferenceId u"
  "apiKey (updateCollectionToken u tok ex t) = apiKey u"
  "disbursement_needs_refresh env (updateCollectionToken u tok ex t) = disbursement_needs_refresh env u"
  by (simp_all add: updateCollectionToken_def disbursement_needs_refresh_def disbursementTokenValid_def)






lemma getValidToken_unfold:
  assumes f: "findOne_active docs = Some (i, m)"
  shows "getValidToken cfg env docs =
     (if truthy (collectionToken m) \<and>
         (\<exists>e. collectionTokenExpiresAt m = Some e \<and> ce_now env < e - 30000)
      then (Inr (collectionToken m), docs)
      else (case getToken cfg (ce_fetch env) (xReferenceId m) (apiKey m) of
              Inl msg \<Rightarrow> (Inl (''Failed to get valid token: '' @ msg), docs)
            | Inr tr \<Rightarrow>
                (case ce_save env of
                   Some msg \<Rightarrow> (Inl (''Failed to get valid token: '' @ msg), docs)
                 | None \<Rightarrow>
                     (Inr (access_token tr),
                      docs[i := m\<lparr>collectionToken := access_token tr,
                                   collectionTokenExpiresAt :=
                                     Some (ce_now_store env +
                                           expires_in_or_180 (expires_in tr) * 1000)\<rparr>]))))"
proof -
  have i: "i < length docs" using findOne_active_Some[OF f] by simp
  show ?thesis
  proof (cases "truthy (collectionToken m) \<and>
         (\<exists>e. collectionTokenExpiresAt m = Some e \<and> ce_now env < e - 30000)")
    case True
    then obtain e where "truthy (collectionToken m)" "collectionTokenExpiresAt m = Some e"
      "ce_now env < e - 30000" by blast
    from getValidToken_cached[OF f this] True show ?thesis by simp
  next
    case False
    then have c: "\<not> (truthy (collectionToken m) \<and> truthy_date (collectionTokenExpiresAt m) \<and>
             the (collectionTokenExpiresAt m) - 30 * 1000 > ce_now env)"
      by (auto simp: truthy_date_def)
    have "getValidToken cfg env docs =
      (case getToken cfg (ce_fetch env) (xReferenceId m) (apiKey m) of
              Inl msg \<Rightarrow> (Inl (''Failed to get valid token: '' @ msg), docs)
            | Inr tr \<Rightarrow>
                (case ce_save env of
                   Some msg \<Rightarrow> (Inl (''Failed to get valid token: '' @ msg), docs)
                 | None \<Rightarrow>
                     (Inr (access_token tr),
                      docs[i := m\<lparr>collectionToken := access_token tr,
                                   collectionTokenExpiresAt :=
                                     Some (ce_now_store env +
                                           expires_in_or_180 (expires_in tr) * 1000)\<rparr>])))"
      using i c
      by (auto simp: getValidToken_def getMTNUser_found[OF f] Let_def save_doc_def
          updateCollectionToken_def expiresIn_default_def
          split: sum.splits option.splits)
    with False show ?thesis by auto
  qed
qed

subsection \<open>Helper lemmas: the concrete credential records\<close>



subsection \<open>Token validity and eviction\<close>




subsection \<open>Token requests\<close>

text \<open>
  Claim C5. Every MTN token acquisition (collection and disbursement) is a Basic-auth
  exchange: the token that \<open>getToken\<close>, \<open>createCollectionToken\<close> or
  \<open>createDisbursementToken\<close> returns is the body of the endpoint's answer to one request,
  whose header \<open>Authorization\<close> is \<open>Basic\<close>, a space, and the base64 encoding of
  \<open>xReferenceId\<close>, a colon and \<open>apiKey\<close>; when the endpoint does not answer that request
  (for \<open>getToken\<close>: not with a 2xx status) no token is returned, and no other request has
  a part in the result. Every Airtel token acquisition is the same kind of exchange with
  a POST whose JSON body holds \<open>client_id\<close>, \<open>client_secret\<close> and
  \<open>grant_type = client_credentials\<close>.
\<close>

theorem token_requests_auth:
  "header (getToken_request cfg x k) ''Authorization'' = Some (''Basic '' @ base64 (x @ '':'' @ k))
   \<and> header (createCollectionToken_request cfg x k) ''Authorization''
        = Some (''Basic '' @ base64 (x @ '':'' @ k))
   \<and> header (createDisbursementToken_request cfg x k) ''Authorization''
        = Some (''Basic '' @ base64 (x @ '':'' @ k))
   \<and> (getToken cfg fetch x k = Inr t
        \<longrightarrow> (\<exists>resp. fetch (getToken_request cfg x k) = Inr resp \<and> response_ok resp \<and>
                   t = token_body resp))
   \<and> (fetch (getToken_request cfg x k) = Inr resp \<and> response_ok resp
        \<longrightarrow> getToken cfg fetch x k = Inr (token_body resp))
   \<and> (createCollectionToken cfg fetch x k = Inr t
        \<longrightarrow> (\<exists>resp. fetch (createCollectionToken_request cfg x k) = Inr resp \<and> t = token_body resp))
   \<and> (fetch (createCollectionToken_request cfg x k) = Inr resp
        \<longrightarrow> createCollectionToken cfg fetch x k = Inr (token_body resp))
   \<and> (createDisbursementToken cfg fetch x k = Inr t
        \<longrightarrow> (\<exists>resp. fetch (createDisbursementToken_request cfg x k) = Inr resp \<and> t = token_body resp))
   \<and> (fetch (createDisbursementToken_request cfg x k) = Inr resp
        \<longrightarrow> createDisbursementToken cfg fetch x k = Inr (token_body resp))
   \<and> (getAccessToken cfg fetch = Inr t
        \<longrightarrow> (\<exists>cid secret resp.
               airtel_clientId cfg = Some cid \<and> airtel_clientSecret cfg = Some secret \<and>
               fetch (getAccessToken_request cfg cid secret) = Inr resp \<and> response_ok resp \<and>
               t = token_body resp))
   \<and> (airtel_clientId cfg = Some cid \<and> cid \<noteq> [] \<and>
       airtel_clientSecret cfg = Some secret \<and> secret \<noteq> [] \<and>
       fetch (getAccessToken_request cfg cid secret) = Inr resp \<and> response_ok resp
        \<longrightarrow> getAccessToken cfg fetch = Inr (token_body resp))
   \<and> req_method (getAccessToken_request cfg cid secret) = ''POST''
   \<and> header (getAccessToken_request cfg cid secret) ''Content-Type'' = Some ''application/json''
   \<and> req_body (getAccessToken_request cfg cid secret)
        = Some (JObj [(''client_id'', JStr cid), (''client_secret'', JStr secret),
                      (''grant_type'', JStr ''client_credentials'')])
   \<and> (fetch (getToken_request cfg x k) = fetch' (getToken_request cfg x k)
        \<longrightarrow> getToken cfg fetch x k = getToken cfg fetch' x k)
   \<and> (fetch (createCollectionToken_request cfg x k) = fetch' (createCollectionToken_request cfg x k)
        \<longrightarrow> createCollectionToken cfg fetch x k = createCollectionToken cfg fetch' x k)
   \<and> (fetch (createDisbursementToken_request cfg x k) = fetch' (createDisbursementToken_request cfg x k)
        \<longrightarrow> createDisbursementToken cfg fetch x k = createDisbursementToken cfg fetch' x k)
   \<and> (airtel_clientId cfg = Some cid \<and> airtel_clientSecret cfg = Some secret \<and>
       fetch (getAccessToken_request cfg cid secret) = fetch' (getAccessToken_request cfg cid secret)
        \<longrightarrow> getAccessToken cfg fetch = getAccessToken cfg fetch')"
proof (intro conjI impI)
  assume "getToken cfg fetch x k = Inr t"
  then show "\<exists>resp. fetch (getToken_request cfg x k) = Inr resp \<and> response_ok resp \<and>
                   t = token_body resp"
    by (auto simp: getToken_def split: sum.splits if_splits)
next
  assume "createCollectionToken cfg fetch x k = Inr t"
  then show "\<exists>resp. fetch (createCollectionToken_request cfg x k) = Inr resp \<and> t = token_body resp"
    by (auto simp: createCollectionToken_def split: sum.splits)
next
  assume "createDisbursementToken cfg fetch x k = Inr t"
  then show "\<exists>resp. fetch (createDisbursementToken_request cfg x k) = Inr resp \<and> t = token_body resp"
    by (auto simp: createDisbursementToken_def split: sum.splits)
next
  assume "getAccessToken cfg fetch = Inr t"
  then show "\<exists>cid secret resp.
               airtel_clientId cfg = Some cid \<and> airtel_clientSecret cfg = Some secret \<and>
               fetch (getAccessToken_request cfg cid secret) = Inr resp \<and> response_ok resp \<and>
               t = token_body resp"
    by (auto simp: getAccessToken_def getAccessToken_sent_def truthy_def
        split: option.splits sum.splits if_splits)
next
  assume "airtel_clientId cfg = Some cid \<and> cid \<noteq> [] \<and>
       airtel_clientSecret cfg = Some secret \<and> secret \<noteq> [] \<and>
       fetch (getAccessToken_request cfg cid secret) = Inr resp \<and> response_ok resp"
  then show "getAccessToken cfg fetch = Inr (token_body resp)"
    by (simp add: getAccessToken_def getAccessToken_sent_def truthy_def)
next
  assume "airtel_clientId cfg = Some cid \<and> airtel_clientSecret cfg = Some secret \<and>
       fetch (getAccessToken_request cfg cid secret) = fetch' (getAccessToken_request cfg cid secret)"
  then show "getAccessToken cfg fetch = getAccessToken cfg fetch'"
    by (simp add: getAccessToken_def getAccessToken_sent_def)
qed (simp_all add: header_def getToken_request_def createCollectionToken_request_def
        createDisbursementToken_request_def getToken_def createCollectionToken_def
        createDisbursementToken_def getAccessToken_request_def)

theorem token_requests_auth_witness:
  "header (getToken_request ex_cfg ''user'' ''key'') ''Authorization'' = Some ''Basic dXNlcjprZXk=''
   \<and> header (createCollectionToken_request ex_cfg ''user'' ''key'') ''Authorization''
        = Some ''Basic dXNlcjprZXk=''
   \<and> header (createDisbursementToken_request ex_cfg ''user'' ''key'') ''Authorization''
        = Some ''Basic dXNlcjprZXk=''
   \<and> getToken ex_cfg
        (\<lambda>r. if r = getToken_request ex_cfg ''user'' ''key''
             then Inr (ex_token_answer (Some 3600)) else Inl ''not the token request'')
        ''user'' ''key'' = Inr (token_body (ex_token_answer (Some 3600)))
   \<and> createCollectionToken ex_cfg
        (\<lambda>r. if r = createCollectionToken_request ex_cfg ''user'' ''key''
             then Inr (ex_token_answer (Some 3600)) else Inl ''not the token request'')
        ''user'' ''key'' = Inr (token_body (ex_token_answer (Some 3600)))
   \<and> createDisbursementToken ex_cfg
        (\<lambda>r. if r = createDisbursementToken_request ex_cfg ''user'' ''key''
             then Inr (ex_token_answer (Some 3600)) else Inl ''not the token request'')
        ''user'' ''key'' = Inr (token_body (ex_token_answer (Some 3600)))
   \<and> getAccessToken ex_cfg
        (\<lambda>r. if r = getAccessToken_request ex_cfg ''cid'' ''secret''
             then Inr (ex_token_answer (Some 3600)) else Inl ''not the token request'')
        = Inr (token_body (ex_token_answer (Some 3600)))
   \<and> getToken ex_cfg (\<lambda>r. Inl ''connect ECONNREFUSED'') ''user'' ''key''
        \<noteq> Inr (token_body (ex_token_answer (Some 3600)))
   \<and> createCollectionToken ex_cfg (\<lambda>r. Inl ''connect ECONNREFUSED'') ''user'' ''key''
        \<noteq> Inr (token_body (ex_token_answer (Some 3600)))
   \<and> createDisbursementToken ex_cfg (\<lambda>r. Inl ''connect ECONNREFUSED'') ''user'' ''key''
        \<noteq> Inr (token_body (ex_token_answer (Some 3600)))
   \<and> getAccessToken ex_cfg (\<lambda>r. Inl ''connect ECONNREFUSED'')
        \<noteq> Inr (token_body (ex_token_answer (Some 3600)))
   \<and> req_body (getAccessToken_request ex_cfg ''cid'' ''secret'')
        = Some (JObj [(''client_id'', JStr ''cid''), (''client_secret'', JStr ''secret''),
                      (''grant_type'', JStr ''client_credentials'')])"
proof -
  let ?ok = "ex_token_answer (Some 3600)"
  let ?only = "\<lambda>q r. if r = q then Inr ?ok else (Inl ''not the token request'' :: string + token_http_response)"
  let ?down = "\<lambda>r :: http_request. (Inl ''connect ECONNREFUSED'' :: string + token_http_response)"
  note up = token_requests_auth [where cfg = ex_cfg and x = "''user''" and k = "''key''"
      and cid = "''cid''" and secret = "''secret''" and resp = ?ok and t = "token_body ?ok"]
  have ok: "response_ok ?ok" by (simp add: response_ok_def ex_token_answer_def)
  have c: "airtel_clientId ex_cfg = Some ''cid''" "airtel_clientSecret ex_cfg = Some ''secret''"
    by (simp_all add: ex_cfg_def)
  have h: "header (getToken_request ex_cfg ''user'' ''key'') ''Authorization'' = Some ''Basic dXNlcjprZXk=''"
    "header (createCollectionToken_request ex_cfg ''user'' ''key'') ''Authorization''
        = Some ''Basic dXNlcjprZXk=''"
    "header (createDisbursementToken_request ex_cfg ''user'' ''key'') ''Authorization''
        = Some ''Basic dXNlcjprZXk=''"
    using up[where fetch = ?down and fetch' = ?down]
    by (simp_all add: base64_def b64_char_def b64_alphabet_def)
  have g1: "getToken ex_cfg (?only (getToken_request ex_cfg ''user'' ''key'')) ''user'' ''key''
      = Inr (token_body ?ok)"
    using up[where fetch = "?only (getToken_request ex_cfg ''user'' ''key'')" and fetch' = ?down] ok
    by simp
  have g2: "createCollectionToken ex_cfg (?only (createCollectionToken_request ex_cfg ''user'' ''key''))
      ''user'' ''key'' = Inr (token_body ?ok)"
    using up[where fetch = "?only (createCollectionToken_request ex_cfg ''user'' ''key'')"
        and fetch' = ?down]
    by simp
  have g3: "createDisbursementToken ex_cfg (?only (createDisbursementToken_request ex_cfg ''user'' ''key''))
      ''user'' ''key'' = Inr (token_body ?ok)"
    using up[where fetch = "?only (createDisbursementToken_request ex_cfg ''user'' ''key'')"
        and fetch' = ?down]
    by simp
  have g4: "getAccessToken ex_cfg (?only (getAccessToken_request ex_cfg ''cid'' ''secret''))
      = Inr (token_body ?ok)"
    using up[where fetch = "?only (getAccessToken_request ex_cfg ''cid'' ''secret'')"
        and fetch' = ?down] ok c
    by simp
  have d: "getToken ex_cfg ?down ''user'' ''key'' \<noteq> Inr (token_body ?ok)"
    "createCollectionToken ex_cfg ?down ''user'' ''key'' \<noteq> Inr (token_body ?ok)"
    "createDisbursementToken ex_cfg ?down ''user'' ''key'' \<noteq> Inr (token_body ?ok)"
    "getAccessToken ex_cfg ?down \<noteq> Inr (token_body ?ok)"
    using up[where fetch = ?down and fetch' = ?down] by auto
  have b: "req_body (getAccessToken_request ex_cfg ''cid'' ''secret'')
        = Some (JObj [(''client_id'', JStr ''cid''), (''client_secret'', JStr ''secret''),
                      (''grant_type'', JStr ''client_credentials'')])"
    using up[where fetch = ?down and fetch' = ?down] by simp
  from h g1 g2 g3 g4 d b show ?thesis by (intro conjI)
qed

subsection \<open>Getting a valid token\<close>




subsection \<open>The retry loop\<close>

lemma retry_loop_success:
  assumes "a \<le> k" "k \<le> n" "\<forall>j. a \<le> j \<and> j < k \<longrightarrow> (\<exists>e. f j = Inl e)" "f k = Inr v"
  shows "retry_loop f n d a le ds = (Inr v, ds @ replicate (nat (k - a)) d, k)"
  using assms
proof (induction f n d a le ds rule: retry_loop.induct)
  case (1 f n d a le ds)
  show ?case
  proof (cases "a = k")
    case True
    with 1(2-) show ?thesis by (simp add: retry_loop.simps)
  next
    case False
    with 1(2-) have lt: "a < k" by simp
    with 1(2-) obtain e where e: "f a = Inl e" by auto
    have an: "a < n" "a \<le> n" using lt 1(3) by simp_all
    have IH: "retry_loop f n d (a + 1) (Some e) (ds @ [d])
              = (Inr v, (ds @ [d]) @ replicate (nat (k - (a + 1))) d, k)"
      using 1(1)[OF an(2) e] an lt 1(3-) by auto
    have r: "d # replicate (nat (k - (a + 1))) d = replicate (nat (k - a)) d"
    proof -
      have "nat (k - a) = Suc (nat (k - (a + 1)))" using lt by arith
      then show ?thesis by simp
    qed
    show ?thesis
      using e an IH r by (subst retry_loop.simps) simp
  qed
qed

lemma retry_loop_all_fail:
  assumes "a \<le> n" "\<forall>j. a \<le> j \<and> j \<le> n \<longrightarrow> (\<exists>e. f j = Inl e)" "f n = Inl err"
  shows "retry_loop f n d a le ds = (Inl (Some err), ds @ replicate (nat (n - a)) d, n)"
  using assms
proof (induction f n d a le ds rule: retry_loop.induct)
  case (1 f n d a le ds)
  from 1(2-) obtain e where e: "f a = Inl e" by auto
  show ?case
  proof (cases "a = n")
    case True
    have "retry_loop f n d (n + 1) (Some e) ds = (Inl (Some e), ds, n)"
      by (subst retry_loop.simps) simp
    with True e 1(4) show ?thesis by (subst retry_loop.simps) simp
  next
    case False
    with 1(2) have lt: "a < n" by simp
    have IH: "retry_loop f n d (a + 1) (Some e) (ds @ [d])
              = (Inl (Some err), (ds @ [d]) @ replicate (nat (n - (a + 1))) d, n)"
      using 1(1)[OF 1(2) e] lt 1(3-) by auto
    have r: "d # replicate (nat (n - (a + 1))) d = replicate (nat (n - a)) d"
    proof -
      have "nat (n - a) = Suc (nat (n - (a + 1)))" using lt by arith
      then show ?thesis by simp
    qed
    show ?thesis
      using e lt IH r by (subst retry_loop.simps) simp
  qed
qed

lemma retry_loop_none: "n < a \<Longrightarrow> retry_loop f n d a le ds = (Inl le, ds, a - 1)"
  by (subst retry_loop.simps) simp

lemma retry_loop_bounds:
  "retry_loop f n d a le ds = (r, ds', c) \<Longrightarrow>
   c \<le> max (a - 1) n \<and> a - 1 \<le> c \<and> (\<exists>m. ds' = ds @ replicate m d \<and> int m \<le> max 0 (n - a))"
proof (induction f n d a le ds arbitrary: r ds' c rule: retry_loop.induct)
  case (1 f n d a le ds)
  show ?case
  proof (cases "a \<le> n")
    case False
    with 1(2) show ?thesis by (simp add: retry_loop.simps)
  next
    case True
    show ?thesis
    proof (cases "f a")
      case (Inr v)
      with True 1(2) show ?thesis by (simp add: retry_loop.simps)
    next
      case (Inl e)
      let ?ds1 = "if a < n then ds @ [d] else ds"
      have rec: "retry_loop f n d (a + 1) (Some e) ?ds1 = (r, ds', c)"
        using 1(2) True Inl by (subst (asm) retry_loop.simps) simp
      from 1(1)[OF True Inl rec]
      obtain m where m: "c \<le> max a n" "a \<le> c" "ds' = ?ds1 @ replicate m d" "int m \<le> max 0 (n - (a + 1))"
        by auto
      show ?thesis
      proof (cases "a < n")
        case True
        then have "ds' = ds @ replicate (Suc m) d" using m(3) by simp
        moreover have "int (Suc m) \<le> max 0 (n - a)" using m(4) True by simp
        ultimately show ?thesis using m(1,2) True by (intro conjI exI[of _ "Suc m"]) auto
      next
        case False
        with \<open>a \<le> n\<close> have "a = n" by simp
        then have "m = 0" using m(4) by simp
        then show ?thesis using m \<open>a = n\<close> by auto
      qed
    qed
  qed
qed


text \<open>
  Claim C7. Where the system retries a provider call it uses a fixed retry count and a
  fixed delay: at most \<open>maxRetries\<close> invocations are made (default 3); every delay waited
  is the constant \<open>retryDelay\<close> (default 1000 ms), one between consecutive failed
  attempts and none after the last; the result of the first successful attempt is returned;
  and if every attempt fails the error of the last attempt is thrown.
\<close>


theorem retryAPICall_fixed_retry:
  "(1 \<le> k \<and> k \<le> (case arg of None \<Rightarrow> maxRetries cfg | Some n \<Rightarrow> n) \<and>
      (\<forall>j. 1 \<le> j \<and> j < k \<longrightarrow> (\<exists>e. apiCall j = Inl e)) \<and> apiCall k = Inr v
    \<longrightarrow> retryAPICall cfg apiCall arg = (Inr v, replicate (nat (k - 1)) (retryDelay cfg), k))
   \<and> (1 \<le> (case arg of None \<Rightarrow> maxRetries cfg | Some n \<Rightarrow> n) \<and>
       (\<forall>j. 1 \<le> j \<and> j \<le> (case arg of None \<Rightarrow> maxRetries cfg | Some n \<Rightarrow> n)
            \<longrightarrow> (\<exists>e. apiCall j = Inl e)) \<and>
       apiCall (case arg of None \<Rightarrow> maxRetries cfg | Some n \<Rightarrow> n) = Inl err
    \<longrightarrow> retryAPICall cfg apiCall arg =
          (Inl (Some err),
           replicate (nat ((case arg of None \<Rightarrow> maxRetries cfg | Some n \<Rightarrow> n) - 1)) (retryDelay cfg),
           (case arg of None \<Rightarrow> maxRetries cfg | Some n \<Rightarrow> n)))
   \<and> snd (snd (retryAPICall cfg apiCall arg)) \<le> max 0 (case arg of None \<Rightarrow> maxRetries cfg | Some n \<Rightarrow> n)
   \<and> set (fst (snd (retryAPICall cfg apiCall arg))) \<subseteq> {retryDelay cfg}
   \<and> int (length (fst (snd (retryAPICall cfg apiCall arg))))
        \<le> max 0 ((case arg of None \<Rightarrow> maxRetries cfg | Some n \<Rightarrow> n) - 1)
   \<and> maxRetries momo_retryConfig = 3 \<and> retryDelay momo_retryConfig = 1000
   \<and> maxRetries (config_retry None None None) = 3
   \<and> retryDelay (config_retry None None None) = 1000"
proof -
  let ?n = "case arg of None \<Rightarrow> maxRetries cfg | Some n \<Rightarrow> n"
  obtain r ds c where res: "retryAPICall cfg apiCall arg = (r, ds, c)"
    by (cases "retryAPICall cfg apiCall arg") auto
  then have "retry_loop apiCall ?n (retryDelay cfg) 1 None [] = (r, ds, c)"
    by (simp add: retryAPICall_def)
  from retry_loop_bounds[OF this]
  obtain m where b: "c \<le> max 0 ?n" "ds = replicate m (retryDelay cfg)" "int m \<le> max 0 (?n - 1)"
    by auto
  have A: "1 \<le> k \<and> k \<le> ?n \<and> (\<forall>j. 1 \<le> j \<and> j < k \<longrightarrow> (\<exists>e. apiCall j = Inl e)) \<and> apiCall k = Inr v
    \<longrightarrow> retryAPICall cfg apiCall arg = (Inr v, replicate (nat (k - 1)) (retryDelay cfg), k)"
    using retry_loop_success[of 1 k ?n apiCall v "retryDelay cfg" None "[]"]
    by (simp add: retryAPICall_def)
  have B: "1 \<le> ?n \<and> (\<forall>j. 1 \<le> j \<and> j \<le> ?n \<longrightarrow> (\<exists>e. apiCall j = Inl e)) \<and> apiCall ?n = Inl err
    \<longrightarrow> retryAPICall cfg apiCall arg = (Inl (Some err), replicate (nat (?n - 1)) (retryDelay cfg), ?n)"
    using retry_loop_all_fail[of 1 ?n apiCall err "retryDelay cfg" None "[]"]
    by (simp add: retryAPICall_def)
  have C: "snd (snd (retryAPICall cfg apiCall arg)) \<le> max 0 ?n"
    "set (fst (snd (retryAPICall cfg apiCall arg))) \<subseteq> {retryDelay cfg}"
    "int (length (fst (snd (retryAPICall cfg apiCall arg)))) \<le> max 0 (?n - 1)"
    using b by (auto simp: res)
  have D: "maxRetries momo_retryConfig = 3" "retryDelay momo_retryConfig = 1000"
    "maxRetries (config_retry None None None) = 3" "retryDelay (config_retry None None None) = 1000"
    by (simp_all add: momo_retryConfig_def config_retry_def parseInt_or_def)
  show ?thesis using A B C D by blast
qed

theorem retryAPICall_witness:
  "retryAPICall momo_retryConfig (\<lambda>k. if k < 3 then Inl ''timeout'' else Inr (42::nat)) None
     = (Inr 42, [1000, 1000], 3)
   \<and> retryAPICall momo_retryConfig (\<lambda>k. (Inl k :: int + nat)) None
     = (Inl (Some 3), [1000, 1000], 3)
   \<and> retryAPICall momo_retryConfig (\<lambda>k. (Inl k :: int + nat)) (Some 1)
     = (Inl (Some 1), [], 1)"
  using
    retryAPICall_fixed_retry [where k = 3 and arg = None and cfg = momo_retryConfig
      and apiCall = "\<lambda>k. if k < 3 then Inl ''timeout'' else Inr (42::nat)" and v = 42]
    retryAPICall_fixed_retry [where k = 3 and arg = None and cfg = momo_retryConfig
      and apiCall = "\<lambda>k. (Inl k :: int + nat)" and err = 3]
    retryAPICall_fixed_retry [where k = 1 and arg = "Some 1" and cfg = momo_retryConfig
      and apiCall = "\<lambda>k. (Inl k :: int + nat)" and err = 1]
  by (simp add: momo_retryConfig_def numeral_eq_Suc)

subsection \<open>Webhook callbacks\<close>

lemma save_doc_cases:
  "save_doc outcome i doc docs = Inl msg \<longleftrightarrow> outcome = Some msg"
  by (simp add: save_doc_def split: option.splits)

lemma mtn_callback_try_400:
  "\<not> (truthy_json (body req) \<and> mtn_required_fields (body req)) \<Longrightarrow>
   \<exists>r. mtn_callback_try env req db = (Inr r, db) \<and> code r = 400"
  by (auto simp: mtn_callback_try_def Let_def)

lemma mtn_callback_try_valid:
  assumes "truthy_json (body req)" "mtn_required_fields (body req)"
  shows "(\<exists>msg db1. mtn_callback_try env req db = (Inl msg, db1)) \<or>
         (\<exists>r db1. mtn_callback_try env req db = (Inr r, db1) \<and> code r = 200)"
  using assms
  by (auto simp: mtn_callback_try_def Let_def split: sum.splits option.splits)

lemma mtn_callback_catch_200:
  "fst (mtn_callback_catch env req msg db) =
     \<lparr>code = 200,
      payload = JObj [(''success'', JBool False),
                      (''message'', JStr ''Callback received but processing failed''),
                      (''error'', JStr msg)]\<rparr>"
  by (simp add: mtn_callback_catch_def Let_def)

lemma airtel_callback_try_400:
  "\<not> (truthy_json (body req) \<and> truthy_json (field (body req) ''transaction'') \<and>
      airtel_required_fields (field (body req) ''transaction'')) \<Longrightarrow>
   \<exists>r. airtel_callback_try env req db = (Inr r, db) \<and> code r = 400"
  by (auto simp: airtel_callback_try_def Let_def)

lemma airtel_callback_try_valid:
  assumes "truthy_json (body req)" "truthy_json (field (body req) ''transaction'')"
    "airtel_required_fields (field (body req) ''transaction'')"
  shows "(\<exists>msg db1. airtel_callback_try env req db = (Inl msg, db1)) \<or>
         (\<exists>r db1. airtel_callback_try env req db = (Inr r, db1) \<and> code r = 200)"
  using assms
  by (auto simp: airtel_callback_try_def Let_def split: sum.splits option.splits)

lemma airtel_callback_catch_200:
  "fst (airtel_callback_catch env req msg db) =
     \<lparr>code = 200,
      payload = JObj [(''success'', JBool False),
                      (''message'', JStr ''Callback received but processing failed''),
                      (''error'', JStr msg)]\<rparr>"
  by (simp add: airtel_callback_catch_def Let_def)


text \<open>
  Claim C8. A webhook callback whose body holds the provider's required fields (each
  truthy: MTN \<open>externalId\<close>, \<open>status\<close>, \<open>amount\<close>, \<open>currency\<close>; Airtel \<open>transaction\<close> with
  \<open>id\<close>, \<open>status_code\<close>, \<open>airtel_money_id\<close>) is answered with HTTP 200, also when storing
  or processing it throws: then the error message appears only in the reply's body. A
  request without a body or lacking a required field is answered with 400.
\<close>


theorem callback_status_codes:
  "(truthy_json (body req) \<and> mtn_required_fields (body req)
      \<longrightarrow> code (fst (MTN_callback env req db)) = 200)
   \<and> (\<not> (truthy_json (body req) \<and> mtn_required_fields (body req))
      \<longrightarrow> code (fst (MTN_callback env req db)) = 400)
   \<and> (mtn_callback_try env req db = (Inl msg, db_c)
      \<longrightarrow> fst (MTN_callback env req db) =
            \<lparr>code = 200,
             payload = JObj [(''success'', JBool False),
                             (''message'', JStr ''Callback received but processing failed''),
                             (''error'', JStr msg)]\<rparr>)
   \<and> (truthy_json (body req) \<and> truthy_json (field (body req) ''transaction'') \<and>
       airtel_required_fields (field (body req) ''transaction'')
      \<longrightarrow> code (fst (Airtel_callback env req adb)) = 200)
   \<and> (\<not> (truthy_json (body req) \<and> truthy_json (field (body req) ''transaction'') \<and>
          airtel_required_fields (field (body req) ''transaction''))
      \<longrightarrow> code (fst (Airtel_callback env req adb)) = 400)
   \<and> (airtel_callback_try env req adb = (Inl msg, adb_c)
      \<longrightarrow> fst (Airtel_callback env req adb) =
            \<lparr>code = 200,
             payload = JObj [(''success'', JBool False),
                             (''message'', JStr ''Callback received but processing failed''),
                             (''error'', JStr msg)]\<rparr>)"
proof (intro conjI impI)
  assume "truthy_json (body req) \<and> mtn_required_fields (body req)"
  then show "code (fst (MTN_callback env req db)) = 200"
    using mtn_callback_try_valid[of req env db]
    by (auto simp: MTN_callback_def mtn_callback_catch_200)
next
  assume "\<not> (truthy_json (body req) \<and> mtn_required_fields (body req))"
  then show "code (fst (MTN_callback env req db)) = 400"
    using mtn_callback_try_400[of req env db] by (auto simp: MTN_callback_def)
next
  assume "mtn_callback_try env req db = (Inl msg, db_c)"
  then show "fst (MTN_callback env req db) =
            \<lparr>code = 200,
             payload = JObj [(''success'', JBool False),
                             (''message'', JStr ''Callback received but processing failed''),
                             (''error'', JStr msg)]\<rparr>"
    by (simp add: MTN_callback_def mtn_callback_catch_200)
next
  assume "truthy_json (body req) \<and> truthy_json (field (body req) ''transaction'') \<and>
       airtel_required_fields (field (body req) ''transaction'')"
  then show "code (fst (Airtel_callback env req adb)) = 200"
    using airtel_callback_try_valid[of req env adb]
    by (auto simp: Airtel_callback_def airtel_callback_catch_200)
next
  assume "\<not> (truthy_json (body req) \<and> truthy_json (field (body req) ''transaction'') \<and>
          airtel_required_fields (field (body req) ''transaction''))"
  then show "code (fst (Airtel_callback env req adb)) = 400"
    using airtel_callback_try_400[of req env adb] by (auto simp: Airtel_callback_def)
next
  assume "airtel_callback_try env req adb = (Inl msg, adb_c)"
  then show "fst (Airtel_callback env req adb) =
            \<lparr>code = 200,
             payload = JObj [(''success'', JBool False),
                             (''message'', JStr ''Callback received but processing failed''),
                             (''error'', JStr msg)]\<rparr>"
    by (simp add: Airtel_callback_def airtel_callback_catch_200)
qed

theorem callback_status_codes_witness:
  "code (fst (MTN_callback ex_callback_env (ex_request (Some (ex_mtn_body ''SUCCESSFUL'')))
                ([ex_Payment ''ref-1'' 1000], []))) = 200
   \<and> fst (MTN_callback (ex_callback_env\<lparr>save_callback := Some ''database is down''\<rparr>)
                (ex_request (Some (ex_mtn_body ''SUCCESSFUL''))) ([ex_Payment ''ref-1'' 1000], []))
       = \<lparr>code = 200,
          payload = JObj [(''success'', JBool False),
                          (''message'', JStr ''Callback received but processing failed''),
                          (''error'', JStr ''database is down'')]\<rparr>
   \<and> code (fst (MTN_callback ex_callback_env
                (ex_request (Some (JObj [(''externalId'', JStr ''user-1'')])))
                ([ex_Payment ''ref-1'' 1000], []))) = 400
   \<and> code (fst (Airtel_callback ex_callback_env (ex_request (Some ex_airtel_body))
                ([ex_Subscription], []))) = 200
   \<and> code (fst (Airtel_callback ex_callback_env (ex_request (Some (JObj [])))
                ([ex_Subscription], []))) = 400"
  using
    callback_status_codes [where env = ex_callback_env
      and req = "ex_request (Some (ex_mtn_body ''SUCCESSFUL''))"
      and db = "([ex_Payment ''ref-1'' 1000], [])" and adb = "([ex_Subscription], [])"
      and msg = "''database is down''" and db_c = "([ex_Payment ''ref-1'' 1000], [])"
      and adb_c = "([ex_Subscription], [])"]
    callback_status_codes [where env = "ex_callback_env\<lparr>save_callback := Some ''database is down''\<rparr>"
      and req = "ex_request (Some (ex_mtn_body ''SUCCESSFUL''))"
      and db = "([ex_Payment ''ref-1'' 1000], [])" and adb = "([ex_Subscription], [])"
      and msg = "''database is down''" and db_c = "([ex_Payment ''ref-1'' 1000], [])"
      and adb_c = "([ex_Subscription], [])"]
    callback_status_codes [where env = ex_callback_env
      and req = "ex_request (Some (JObj [(''externalId'', JStr ''user-1'')]))"
      and db = "([ex_Payment ''ref-1'' 1000], [])" and adb = "([ex_Subscription], [])"
      and msg = "''database is down''" and db_c = "([ex_Payment ''ref-1'' 1000], [])"
      and adb_c = "([ex_Subscription], [])"]
    callback_status_codes [where env = ex_callback_env
      and req = "ex_request (Some ex_airtel_body)"
      and db = "([ex_Payment ''ref-1'' 1000], [])" and adb = "([ex_Subscription], [])"
      and msg = "''database is down''" and db_c = "([ex_Payment ''ref-1'' 1000], [])"
      and adb_c = "([ex_Subscription], [])"]
    callback_status_codes [where env = ex_callback_env
      and req = "ex_request (Some (JObj []))"
      and db = "([ex_Payment ''ref-1'' 1000], [])" and adb = "([ex_Subscription], [])"
      and msg = "''database is down''" and db_c = "([ex_Payment ''ref-1'' 1000], [])"
      and adb_c = "([ex_Subscription], [])"]
  by (simp add: mtn_required_fields_def airtel_required_fields_def mtn_callback_try_def
        save_doc_def Let_def ex_callback_env_def ex_request_def ex_mtn_body_def ex_airtel_body_def)






lemma note_financialTransactionId_fields [simp]:
  "status (note_financialTransactionId cd p) = status p"
  "payment_mtnStatus (note_financialTransactionId cd p) = payment_mtnStatus p"
  "mtnResponse (note_financialTransactionId cd p) = mtnResponse p"
  "externalId (note_financialTransactionId cd p) = externalId p"
  "createdAt (note_financialTransactionId cd p) = createdAt p"
  "completedAt (note_financialTransactionId cd p) = completedAt p"
  "payment_xReferenceId (note_financialTransactionId cd p) = payment_xReferenceId p"
  by (simp_all add: note_financialTransactionId_def)











subsection \<open>Subscription payments\<close>

lemma validate_channel:
  "validate_subscriptionData d = None \<Longrightarrow>
   toUpperCase (the (sd_paymentChannel d)) = ''MTN'' \<or> toUpperCase (the (sd_paymentChannel d)) = ''AIRTEL''"
  by (auto simp: validate_subscriptionData_def split: if_splits)

lemma subscription_try_provider_throws:
  assumes "(channel = ''AIRTEL'' \<and>
            ussdPushPayment env (airtel_paymentData d country cur tid) country cur = Inl msg) \<or>
           (channel = ''MTN'' \<and> mtn_requestToPay env (mtn_paymentData d cur tid) = Inl msg)"
  shows "subscription_try env d channel country cur tid i s subs = (Inl (msg, s), subs)"
  using assms by (auto simp: subscription_try_def)

lemma subscription_catch_result:
  "subscription_catch env channel i msg s subs =
     (case save_errored env of
        Some saveError \<Rightarrow> (saveError, subs)
      | None \<Rightarrow>
          (msg,
           (let s' = (if channel = ''AIRTEL''
                      then s\<lparr>status := ''FAILED'', airtelError := Some (JObj [(''message'', JStr msg)]),
                             completedAt := Some (t_failed env)\<rparr>
                      else if channel = ''MTN''
                      then s\<lparr>status := ''FAILED'', mtnError := Some (JObj [(''message'', JStr msg)]),
                             completedAt := Some (t_failed env)\<rparr>
                      else s\<lparr>status := ''FAILED'', completedAt := Some (t_failed env)\<rparr>)
            in if i < length subs then subs[i := s'] else subs @ [s'])))"
  by (simp add: subscription_catch_def save_doc_def Let_def split: option.splits)


text \<open>
  Claim C9, as amended. If the provider payment call inside \<open>createSubscriptionPayment\<close>
  throws after the subscription record was persisted with status PENDING, the function
  never returns normally: it throws an error whose message begins with
  \<open>Subscription payment failed: \<close>. When the \<^verbatim>\<open>save()\<close> of the error path resolves, the
  stored record is FAILED with \<open>completedAt\<close> set and the provider's error message in
  \<open>airtelError\<close> or \<open>mtnError\<close> according to the channel, and the provider's error is the
  one rethrown. When that \<^verbatim>\<open>save()\<close> rejects, the stored record stays as it was created
  (PENDING) and the error of the save is the one rethrown.
\<close>

theorem subscription_provider_failure:
  "validate_subscriptionData d = None \<and> save_created env = None \<and>
   channel = toUpperCase (the (sd_paymentChannel d)) \<and>
   country = or_else (sd_country d) ''RW'' \<and> cur = or_else (sd_currency d) ''RWF'' \<and>
   tid = ''SUB-'' @ randomUUID env \<and>
   ((channel = ''AIRTEL'' \<and>
     ussdPushPayment env (airtel_paymentData d country cur tid) country cur = Inl msg) \<or>
    (channel = ''MTN'' \<and> mtn_requestToPay env (mtn_paymentData d cur tid) = Inl msg))
   \<longrightarrow> (\<exists>m. fst (createSubscriptionPayment env d subs) = Inl (''Subscription payment failed: '' @ m))
       \<and> status (new_Subscription env d cur channel tid) = ''PENDING''
       \<and> (save_errored env = None \<longrightarrow>
            createSubscriptionPayment env d subs =
              (Inl (''Subscription payment failed: '' @ msg),
               subs @ [(new_Subscription env d cur channel tid)
                         \<lparr>status := ''FAILED'',
                          completedAt := Some (t_failed env),
                          airtelError := (if channel = ''AIRTEL''
                                          then Some (JObj [(''message'', JStr msg)]) else None),
                          mtnError := (if channel = ''MTN''
                                       then Some (JObj [(''message'', JStr msg)]) else None)\<rparr>]))
       \<and> (\<forall>e. save_errored env = Some e \<longrightarrow>
            createSubscriptionPayment env d subs =
              (Inl (''Subscription payment failed: '' @ e),
               subs @ [new_Subscription env d cur channel tid]))"
proof (intro impI)
  assume a: "validate_subscriptionData d = None \<and> save_created env = None \<and>
   channel = toUpperCase (the (sd_paymentChannel d)) \<and>
   country = or_else (sd_country d) ''RW'' \<and> cur = or_else (sd_currency d) ''RWF'' \<and>
   tid = ''SUB-'' @ randomUUID env \<and>
   ((channel = ''AIRTEL'' \<and>
     ussdPushPayment env (airtel_paymentData d country cur tid) country cur = Inl msg) \<or>
    (channel = ''MTN'' \<and> mtn_requestToPay env (mtn_paymentData d cur tid) = Inl msg))"
  let ?s0 = "new_Subscription env d cur channel tid"
  have t: "subscription_try env d channel country cur tid (length subs) ?s0 (subs @ [?s0])
             = (Inl (msg, ?s0), subs @ [?s0])"
    using a subscription_try_provider_throws by blast
  have c: "createSubscriptionPayment env d subs =
             (case subscription_catch env channel (length subs) msg ?s0 (subs @ [?s0]) of
                (thrown, subs3) \<Rightarrow> (Inl (''Subscription payment failed: '' @ thrown), subs3))"
    using a t by (simp add: createSubscriptionPayment_def Let_def save_doc_def)
  have ch: "channel = ''AIRTEL'' \<or> channel = ''MTN''" using a by blast
  have n: "airtelError ?s0 = None" "mtnError ?s0 = None" "status ?s0 = ''PENDING''"
    by (simp_all add: new_Subscription_def)
  have r1: "\<exists>m. fst (createSubscriptionPayment env d subs) = Inl (''Subscription payment failed: '' @ m)"
    unfolding c by (cases "subscription_catch env channel (length subs) msg ?s0 (subs @ [?s0])") simp
  have r3: "save_errored env = None \<longrightarrow>
            createSubscriptionPayment env d subs =
              (Inl (''Subscription payment failed: '' @ msg),
               subs @ [?s0\<lparr>status := ''FAILED'',
                          completedAt := Some (t_failed env),
                          airtelError := (if channel = ''AIRTEL''
                                          then Some (JObj [(''message'', JStr msg)]) else None),
                          mtnError := (if channel = ''MTN''
                                       then Some (JObj [(''message'', JStr msg)]) else None)\<rparr>])"
    using ch unfolding c subscription_catch_result
    by (auto simp: Let_def new_Subscription_def)
  have r4: "\<forall>e. save_errored env = Some e \<longrightarrow>
            createSubscriptionPayment env d subs =
              (Inl (''Subscription payment failed: '' @ e), subs @ [?s0])"
    unfolding c subscription_catch_result by simp
  show "(\<exists>m. fst (createSubscriptionPayment env d subs) = Inl (''Subscription payment failed: '' @ m))
       \<and> status ?s0 = ''PENDING''
       \<and> (save_errored env = None \<longrightarrow>
            createSubscriptionPayment env d subs =
              (Inl (''Subscription payment failed: '' @ msg),
               subs @ [?s0\<lparr>status := ''FAILED'',
                          completedAt := Some (t_failed env),
                          airtelError := (if channel = ''AIRTEL''
                                          then Some (JObj [(''message'', JStr msg)]) else None),
                          mtnError := (if channel = ''MTN''
                                       then Some (JObj [(''message'', JStr msg)]) else None)\<rparr>]))
       \<and> (\<forall>e. save_errored env = Some e \<longrightarrow>
            createSubscriptionPayment env d subs =
              (Inl (''Subscription payment failed: '' @ e), subs @ [?s0]))"
    using r1 n(3) r3 r4 by blast
qed

lemma ex_upper: "toUpperCase ''airtel'' = ''AIRTEL''" "toUpperCase ''MTN'' = ''MTN''"
  by code_simp+

lemma ex_uuid: "uuidRegex_test ''123e4567-e89b-12d3-a456-426614174000''"
  by code_simp

lemma ex_validate: "validate_subscriptionData (ex_subscriptionData ''airtel'') = None"
  "validate_subscriptionData (ex_subscriptionData ''MTN'') = None"
  by (simp_all add: validate_subscriptionData_def ex_subscriptionData_def truthy_def truthy_num_def
      ex_upper ex_uuid)

lemma ex_subscriptionData_fields:
  "sd_paymentChannel (ex_subscriptionData c) = Some c"
  "sd_country (ex_subscriptionData c) = None"
  "sd_currency (ex_subscriptionData c) = None"
  by (simp_all add: ex_subscriptionData_def)

theorem subscription_provider_failure_witness:
  "fst (createSubscriptionPayment ex_subscription_env (ex_subscriptionData ''airtel'') [])
     = Inl ''Subscription payment failed: USSD Push payment failed: timeout''
   \<and> status (snd (createSubscriptionPayment ex_subscription_env (ex_subscriptionData ''airtel'') []) ! 0)
     = ''FAILED''
   \<and> completedAt (snd (createSubscriptionPayment ex_subscription_env (ex_subscriptionData ''airtel'') []) ! 0)
     = Some 7004
   \<and> airtelError (snd (createSubscriptionPayment ex_subscription_env (ex_subscriptionData ''airtel'') []) ! 0)
     = Some (JObj [(''message'', JStr ''USSD Push payment failed: timeout'')])
   \<and> mtnError (snd (createSubscriptionPayment ex_subscription_env (ex_subscriptionData ''airtel'') []) ! 0)
     = None
   \<and> fst (createSubscriptionPayment ex_subscription_env (ex_subscriptionData ''MTN'') [])
     = Inl ''Subscription payment failed: Request to pay failed: timeout''
   \<and> status (snd (createSubscriptionPayment ex_subscription_env (ex_subscriptionData ''MTN'') []) ! 0)
     = ''FAILED''
   \<and> mtnError (snd (createSubscriptionPayment ex_subscription_env (ex_subscriptionData ''MTN'') []) ! 0)
     = Some (JObj [(''message'', JStr ''Request to pay failed: timeout'')])"
proof -
  let ?env = ex_subscription_env
  let ?tid = "''SUB-'' @ randomUUID ex_subscription_env"
  have A: "validate_subscriptionData (ex_subscriptionData ''airtel'') = None \<and> save_created ?env = None \<and>
     ''AIRTEL'' = toUpperCase (the (sd_paymentChannel (ex_subscriptionData ''airtel''))) \<and>
     ''RW'' = or_else (sd_country (ex_subscriptionData ''airtel'')) ''RW'' \<and>
     ''RWF'' = or_else (sd_currency (ex_subscriptionData ''airtel'')) ''RWF'' \<and>
     ?tid = ''SUB-'' @ randomUUID ?env \<and>
     ((''AIRTEL'' = ''AIRTEL'' \<and>
       ussdPushPayment ?env (airtel_paymentData (ex_subscriptionData ''airtel'') ''RW'' ''RWF'' ?tid) ''RW'' ''RWF''
         = Inl ''USSD Push payment failed: timeout'') \<or>
      (''AIRTEL'' = ''MTN'' \<and>
       mtn_requestToPay ?env (mtn_paymentData (ex_subscriptionData ''airtel'') ''RWF'' ?tid)
         = Inl ''USSD Push payment failed: timeout''))"
    by (simp add: ex_validate ex_upper or_else_def ex_subscriptionData_fields ex_subscription_env_def)
  have M: "validate_subscriptionData (ex_subscriptionData ''MTN'') = None \<and> save_created ?env = None \<and>
     ''MTN'' = toUpperCase (the (sd_paymentChannel (ex_subscriptionData ''MTN''))) \<and>
     ''RW'' = or_else (sd_country (ex_subscriptionData ''MTN'')) ''RW'' \<and>
     ''RWF'' = or_else (sd_currency (ex_subscriptionData ''MTN'')) ''RWF'' \<and>
     ?tid = ''SUB-'' @ randomUUID ?env \<and>
     ((''MTN'' = ''AIRTEL'' \<and>
       ussdPushPayment ?env (airtel_paymentData (ex_subscriptionData ''MTN'') ''RW'' ''RWF'' ?tid) ''RW'' ''RWF''
         = Inl ''Request to pay failed: timeout'') \<or>
      (''MTN'' = ''MTN'' \<and>
       mtn_requestToPay ?env (mtn_paymentData (ex_subscriptionData ''MTN'') ''RWF'' ?tid)
         = Inl ''Request to pay failed: timeout''))"
    by (simp add: ex_validate ex_upper or_else_def ex_subscriptionData_fields ex_subscription_env_def)
  have S: "save_errored ?env = None" by (simp add: ex_subscription_env_def)
  from subscription_provider_failure [where env = ?env and d = "ex_subscriptionData ''airtel''"
      and channel = "''AIRTEL''" and country = "''RW''" and cur = "''RWF''" and tid = ?tid
      and msg = "''USSD Push payment failed: timeout''" and subs = "[]", rule_format, OF A] S
  have a: "createSubscriptionPayment ?env (ex_subscriptionData ''airtel'') [] =
      (Inl (''Subscription payment failed: '' @ ''USSD Push payment failed: timeout''),
       [] @ [(new_Subscription ?env (ex_subscriptionData ''airtel'') ''RWF'' ''AIRTEL'' ?tid)
               \<lparr>status := ''FAILED'', completedAt := Some (t_failed ?env),
                airtelError := Some (JObj [(''message'', JStr ''USSD Push payment failed: timeout'')]),
                mtnError := None\<rparr>])"
    by simp
  from subscription_provider_failure [where env = ?env and d = "ex_subscriptionData ''MTN''"
      and channel = "''MTN''" and country = "''RW''" and cur = "''RWF''" and tid = ?tid
      and msg = "''Request to pay failed: timeout''" and subs = "[]", rule_format, OF M] S
  have m: "createSubscriptionPayment ?env (ex_subscriptionData ''MTN'') [] =
      (Inl (''Subscription payment failed: '' @ ''Request to pay failed: timeout''),
       [] @ [(new_Subscription ?env (ex_subscriptionData ''MTN'') ''RWF'' ''MTN'' ?tid)
               \<lparr>status := ''FAILED'', completedAt := Some (t_failed ?env),
                airtelError := None,
                mtnError := Some (JObj [(''message'', JStr ''Request to pay failed: timeout'')])\<rparr>])"
    by simp
  show ?thesis
    unfolding a m by (simp add: ex_subscription_env_def)
qed

text \<open>
  The claim as written fails when the \<^verbatim>\<open>save()\<close> of the error path rejects: the Airtel
  call throws after the record was stored as PENDING, the function rethrows the error of
  the rejected save, and the stored record is still PENDING, without \<open>completedAt\<close> and
  without an error message.
\<close>

theorem subscription_failure_unrecorded_counterexample:
  "ussdPushPayment (ex_subscription_env\<lparr>save_errored := Some ''database is down''\<rparr>)
       (airtel_paymentData (ex_subscriptionData ''airtel'') ''RW'' ''RWF''
          (''SUB-'' @ randomUUID ex_subscription_env)) ''RW'' ''RWF''
     = Inl ''USSD Push payment failed: timeout''
   \<and> fst (createSubscriptionPayment (ex_subscription_env\<lparr>save_errored := Some ''database is down''\<rparr>)
            (ex_subscriptionData ''airtel'') [])
     = Inl ''Subscription payment failed: database is down''
   \<and> length (snd (createSubscriptionPayment
                    (ex_subscription_env\<lparr>save_errored := Some ''database is down''\<rparr>)
                    (ex_subscriptionData ''airtel'') [])) = 1
   \<and> status (snd (createSubscriptionPayment
                    (ex_subscription_env\<lparr>save_errored := Some ''database is down''\<rparr>)
                    (ex_subscriptionData ''airtel'') []) ! 0) = ''PENDING''
   \<and> completedAt (snd (createSubscriptionPayment
                    (ex_subscription_env\<lparr>save_errored := Some ''database is down''\<rparr>)
                    (ex_subscriptionData ''airtel'') []) ! 0) = None
   \<and> airtelError (snd (createSubscriptionPayment
                    (ex_subscription_env\<lparr>save_errored := Some ''database is down''\<rparr>)
                    (ex_subscriptionData ''airtel'') []) ! 0) = None"
  by (simp add: createSubscriptionPayment_def ex_validate ex_upper Let_def subscription_try_def
      subscription_catch_def save_doc_def new_Subscription_def ex_subscription_env_def
      or_else_def ex_subscriptionData_fields)

text \<open>
  Claim C3: the code does not do what the claim says. The main status that
  \<open>createSubscriptionPayment\<close> stores is not determined by the provider's response status.
  At this input the Airtel answer reports the transaction as successful (\<open>TS\<close>); the
  record is set to SUCCESSFUL and its end date is saved; then the last \<^verbatim>\<open>save()\<close> of the
  \<^verbatim>\<open>try\<close> block rejects with \<open>write failed\<close>, the \<^verbatim>\<open>catch\<close> block overwrites the status
  with FAILED, files the database error under \<open>airtelError\<close> and saves. The stored record
  is FAILED although its \<open>airtelStatus\<close> is \<open>TS\<close>. With the same answer and a resolving
  \<^verbatim>\<open>save()\<close> the stored record is SUCCESSFUL.
\<close>

theorem subscription_failed_after_provider_success:
  "ussdPushPayment (ex_paid_env None) = ussdPushPayment (ex_paid_env (Some ''write failed''))
   \<and> airtelStatus (snd (createSubscriptionPayment (ex_paid_env None)
                          (ex_subscriptionData ''airtel'') []) ! 0) = Some (JStr ''TS'')
   \<and> status (snd (createSubscriptionPayment (ex_paid_env None)
                    (ex_subscriptionData ''airtel'') []) ! 0) = ''SUCCESSFUL''
   \<and> fst (createSubscriptionPayment (ex_paid_env (Some ''write failed''))
            (ex_subscriptionData ''airtel'') [])
        = Inl ''Subscription payment failed: write failed''
   \<and> airtelStatus (snd (createSubscriptionPayment (ex_paid_env (Some ''write failed''))
                          (ex_subscriptionData ''airtel'') []) ! 0) = Some (JStr ''TS'')
   \<and> status (snd (createSubscriptionPayment (ex_paid_env (Some ''write failed''))
                    (ex_subscriptionData ''airtel'') []) ! 0) = ''FAILED''
   \<and> airtelError (snd (createSubscriptionPayment (ex_paid_env (Some ''write failed''))
                    (ex_subscriptionData ''airtel'') []) ! 0)
        = Some (JObj [(''message'', JStr ''write failed'')])
   \<and> endDate (snd (createSubscriptionPayment (ex_paid_env (Some ''write failed''))
                    (ex_subscriptionData ''airtel'') []) ! 0) = Some (7001 + 3 * 2592000000)"
  by (simp add: createSubscriptionPayment_def ex_validate ex_upper Let_def subscription_try_def
      airtel_response_applied_def calculateEndDate_def subscription_catch_def save_doc_def
      new_Subscription_def ex_paid_env_def ex_subscription_env_def or_else_def
      ex_subscriptionData_fields truthy_date_def ex_airtel_success_def)
     (simp add: ex_subscriptionData_def)

subsection \<open>MTN payment requests\<close>

lemma currency_RWF_rejected:
  "check_path ''currency'' True (Some [''EUR'', ''USD'', ''XAF'', ''XOF'']) (Some ''RWF'')
     = [enum_error ''currency'' ''RWF'']"
  by (simp add: check_path_def)

lemma new_pending_Payment_errors:
  "Payment_errors (new_pending_Payment cfg penv u ref uid ph amt) \<noteq> []"
  by (simp add: Payment_errors_def new_pending_Payment_def currency_RWF_rejected)

lemma save_new_pending_Payment:
  "save_Payment outcome i (new_pending_Payment cfg penv u ref uid ph amt) docs =
     Inl (''Payment validation failed: '' @
          join_comma (Payment_errors (new_pending_Payment cfg penv u ref uid ph amt)))"
  by (simp add: save_Payment_def Payment_validate_def new_pending_Payment_errors)

lemma requestPayment_rejected:
  "requestPayment cfg cenv penv uid ph amt opts (users, pays) =
     (case getMTNUser cfg cenv users of
        (Inl msg, users') \<Rightarrow> (Inl (''Failed to request payment: '' @ msg), users', pays)
      | (Inr (i, u), users') \<Rightarrow>
          (Inl (''Failed to request payment: '' @ ''Payment validation failed: '' @
                join_comma (Payment_errors
                  (new_pending_Payment cfg penv u (pe_randomUUID penv) uid ph amt))),
           users', pays))"
  by (simp add: requestPayment_def Let_def save_new_pending_Payment
      split: prod.splits sum.splits)

lemma new_pending_Payment_fetch:
  "new_pending_Payment cfg (penv\<lparr>pe_fetch := f\<rparr>) u refId uid ph amt
     = new_pending_Payment cfg penv u refId uid ph amt"
  by (simp add: new_pending_Payment_def)

lemma ex_pending_errors:
  "Payment_errors (new_pending_Payment ex_cfg ex_payment_env
       (ex_MTNUser (Some ''cached'') (Some 2000000)) ref ''user-1'' ''250780000000'' 100)
     = (if ref = [] then [required_error ''xReferenceId''] else []) @ [enum_error ''currency'' ''RWF'']"
  by (simp add: Payment_errors_def new_pending_Payment_def check_path_def check_maxlength_def
      status_enum_def ex_MTNUser_def ex_cfg_def)

text \<open>
  Claim C6: the code does not do what the claim says. \<open>requestPayment\<close> takes the
  identifier from \<^verbatim>\<open>crypto.randomUUID()\<close> and would send it as \<open>X-Reference-Id\<close>, but it
  first saves a Payment whose currency is the constant \<open>RWF\<close>, and the enum of the Payment
  schema holds EUR, USD, XAF and XOF only. So for every input the first \<^verbatim>\<open>payment.save()\<close>
  rejects: the call ends by throwing \<open>Failed to request payment: ...\<close>, the Payment
  collection is unchanged, and the provider endpoint has no part in the result (no
  request-to-pay is sent, no reference id returned). The last conjunct evaluates the call
  for user \<open>user-1\<close>, phone \<open>250780000000\<close> and amount 100 with an active credential
  record.
\<close>

theorem requestPayment_rejects_every_request:
  "isl (fst (requestPayment cfg cenv penv uid phoneNumber amt opts (users, payments)))
   \<and> snd (snd (requestPayment cfg cenv penv uid phoneNumber amt opts (users, payments))) = payments
   \<and> requestPayment cfg cenv (penv\<lparr>pe_fetch := f\<rparr>) uid phoneNumber amt opts (users, payments)
        = requestPayment cfg cenv penv uid phoneNumber amt opts (users, payments)
   \<and> requestPayment ex_cfg (ex_collection_env None) ex_payment_env ''user-1'' ''250780000000'' 100
        ex_payment_options ([ex_MTNUser (Some ''cached'') (Some 2000000)], [])
        = (Inl (''Failed to request payment: Payment validation failed: currency: '' @ tick ''RWF'' @
                '' is not a valid enum value for path '' @ tick ''currency'' @ ''.''),
           [ex_MTNUser (Some ''cached'') (Some 2000000)], [])"
proof (intro conjI)
  show "isl (fst (requestPayment cfg cenv penv uid phoneNumber amt opts (users, payments)))"
    by (simp add: requestPayment_rejected split: prod.splits sum.splits)
  show "snd (snd (requestPayment cfg cenv penv uid phoneNumber amt opts (users, payments))) = payments"
    by (simp add: requestPayment_rejected split: prod.splits sum.splits)
  show "requestPayment cfg cenv (penv\<lparr>pe_fetch := f\<rparr>) uid phoneNumber amt opts (users, payments)
        = requestPayment cfg cenv penv uid phoneNumber amt opts (users, payments)"
    by (simp add: requestPayment_rejected new_pending_Payment_fetch split: prod.splits sum.splits)
  have g: "getMTNUser ex_cfg (ex_collection_env None) [ex_MTNUser (Some ''cached'') (Some 2000000)]
      = (Inr (0, ex_MTNUser (Some ''cached'') (Some 2000000)),
         [ex_MTNUser (Some ''cached'') (Some 2000000)])"
    by (rule getMTNUser_found) (simp add: findOne_active_def ex_MTNUser_def)
  have u: "pe_randomUUID ex_payment_env \<noteq> []" by (simp add: ex_payment_env_def)
  show "requestPayment ex_cfg (ex_collection_env None) ex_payment_env ''user-1'' ''250780000000'' 100
        ex_payment_options ([ex_MTNUser (Some ''cached'') (Some 2000000)], [])
        = (Inl (''Failed to request payment: Payment validation failed: currency: '' @ tick ''RWF'' @
                '' is not a valid enum value for path '' @ tick ''currency'' @ ''.''),
           [ex_MTNUser (Some ''cached'') (Some 2000000)], [])"
    by (simp add: requestPayment_rejected g ex_pending_errors u enum_error_def)
qed

end
